theory Spec2Isabelle
  imports Complex_Main
begin

section \<open>JavaScript values\<close>

text \<open>
  The server handles values obtained from \<^verbatim>\<open>response.json()\<close> and builds plain
  objects from them. A value is one of the JSON shapes or \<^verbatim>\<open>undefined\<close> (what a
  missing property reads as). An object is its list of properties in insertion order.
  Numbers are rationals: the only thing the program asks of a number is whether it is
  zero.
\<close>

datatype jsval =
    JUndefined
  | JNull
  | JBool bool
  | JNum rat
  | JStr string
  | JArr "jsval list"
  | JObj "(string \<times> jsval) list"

text \<open>What \<^verbatim>\<open>if (v)\<close>, \<^verbatim>\<open>!v\<close> and \<^verbatim>\<open>a && b\<close> test.\<close>

fun truthy :: "jsval \<Rightarrow> bool" where
  "truthy JUndefined = False"
| "truthy JNull = False"
| "truthy (JBool b) = b"
| "truthy (JNum n) = (n \<noteq> 0)"
| "truthy (JStr s) = (s \<noteq> [])"
| "truthy (JArr xs) = True"
| "truthy (JObj kvs) = True"

fun nullish :: "jsval \<Rightarrow> bool" where
  "nullish JUndefined = True"
| "nullish JNull = True"
| "nullish v = False"

text \<open>
  What the program can throw inside a \<^verbatim>\<open>try\<close> block: a rejected \<^verbatim>\<open>fetch\<close>, the two
  \<^verbatim>\<open>throw new Error(...)\<close> statements (carrying the status text, respectively the
  status code, of the message), a body that is not JSON, and a property read on
  \<^verbatim>\<open>null\<close> or \<^verbatim>\<open>undefined\<close>.
\<close>

datatype js_exn =
    FetchError
  | ApiError string
  | StatusError nat
  | SyntaxError
  | TypeError

text \<open>
  \<^verbatim>\<open>o[k]\<close> for the property names this program uses (currency codes and fixed field
  names, none of which is an index, \<^verbatim>\<open>length\<close> or a member of a prototype): the
  property of an object, \<^verbatim>\<open>undefined\<close> on any other value that is not
  \<^verbatim>\<open>null\<close>/\<^verbatim>\<open>undefined\<close>, and a TypeError on those two.
\<close>

fun js_get :: "jsval \<Rightarrow> string \<Rightarrow> jsval" where
  "js_get (JObj kvs) k = (case map_of kvs k of Some v \<Rightarrow> v | None \<Rightarrow> JUndefined)"
| "js_get v k = JUndefined"

definition js_member :: "jsval \<Rightarrow> string \<Rightarrow> js_exn + jsval" where
  "js_member v k = (if nullish v then Inl TypeError else Inr (js_get v k))"

text \<open>\<^verbatim>\<open>o?.k\<close>\<close>

definition js_opt_member :: "jsval \<Rightarrow> string \<Rightarrow> jsval" where
  "js_opt_member v k = (if nullish v then JUndefined else js_get v k)"

text \<open>\<^verbatim>\<open>obj[k] = v\<close> on a plain object: overwrite in place, or append a new property.\<close>

fun js_set :: "(string \<times> jsval) list \<Rightarrow> string \<Rightarrow> jsval \<Rightarrow> (string \<times> jsval) list" where
  "js_set [] k v = [(k, v)]"
| "js_set (p # ps) k v = (if fst p = k then (k, v) # ps else p # js_set ps k v)"

subsection \<open>JSON text\<close>

text \<open>
  A JSON text is represented by the value it denotes, so \<^verbatim>\<open>JSON.parse\<close> is the
  identity on texts and \<^verbatim>\<open>JSON.stringify\<close> is what serialising loses: a property
  whose value is \<^verbatim>\<open>undefined\<close> is left out of an object, and \<^verbatim>\<open>undefined\<close> in an
  array is written \<^verbatim>\<open>null\<close>.
\<close>

type_synonym json_text = jsval

definition undefined_to_null :: "jsval \<Rightarrow> jsval" where
  "undefined_to_null v = (if v = JUndefined then JNull else v)"

primrec JSON_stringify :: "jsval \<Rightarrow> json_text" where
  "JSON_stringify JUndefined = JUndefined"
| "JSON_stringify JNull = JNull"
| "JSON_stringify (JBool b) = JBool b"
| "JSON_stringify (JNum n) = JNum n"
| "JSON_stringify (JStr s) = JStr s"
| "JSON_stringify (JArr xs) = JArr (map undefined_to_null (map JSON_stringify xs))"
| "JSON_stringify (JObj kvs) =
     JObj (filter (\<lambda>kv. snd kv \<noteq> JUndefined) (map (map_prod id JSON_stringify) kvs))"

definition JSON_parse :: "json_text \<Rightarrow> jsval" where
  "JSON_parse t = t"

section \<open>Strings\<close>

text \<open>\<^verbatim>\<open>xs.join(sep)\<close> on an array of strings.\<close>

fun join :: "string \<Rightarrow> string list \<Rightarrow> string" where
  "join sep [] = []"
| "join sep [x] = x"
| "join sep (x # y # ys) = x @ sep @ join sep (y # ys)"

text \<open>
  \<^verbatim>\<open>toLowerCase\<close> and \<^verbatim>\<open>toUpperCase\<close> on the ASCII letters; every other character is
  kept (the supported currency codes are ASCII, and no character outside ASCII
  lower-cases to one of their letters).
\<close>

definition upper_letters :: string where
  "upper_letters = ''ABCDEFGHIJKLMNOPQRSTUVWXYZ''"

definition lower_letters :: string where
  "lower_letters = ''abcdefghijklmnopqrstuvwxyz''"

definition toLowerCase :: "string \<Rightarrow> string" where
  "toLowerCase s =
     map (\<lambda>c. case map_of (zip upper_letters lower_letters) c of Some l \<Rightarrow> l | None \<Rightarrow> c) s"

definition toUpperCase :: "string \<Rightarrow> string" where
  "toUpperCase s =
     map (\<lambda>c. case map_of (zip lower_letters upper_letters) c of Some u \<Rightarrow> u | None \<Rightarrow> c) s"

section \<open>The table \<^verbatim>\<open>btc_price_cache\<close>\<close>

text \<open>
  \<^verbatim>\<open>CREATE TABLE btc_price_cache (date TEXT PRIMARY KEY, price_data TEXT, timestamp INTEGER)\<close>:
  a list of rows, in insertion order.
\<close>

record cache_row =
  row_date :: string
  row_price_data :: json_text
  row_timestamp :: int

type_synonym cache_table = "cache_row list"

text \<open>\<^verbatim>\<open>SELECT price_data, timestamp FROM btc_price_cache WHERE date = ?\<close>, \<^verbatim>\<open>.get(date)\<close>\<close>

definition db_select :: "cache_table \<Rightarrow> string \<Rightarrow> cache_row option" where
  "db_select db k = find (\<lambda>r. row_date r = k) db"

text \<open>\<^verbatim>\<open>INSERT OR REPLACE INTO btc_price_cache (date, price_data, timestamp) VALUES (?, ?, ?)\<close>\<close>

definition db_insert_or_replace :: "cache_table \<Rightarrow> cache_row \<Rightarrow> cache_table" where
  "db_insert_or_replace db r = filter (\<lambda>q. row_date q \<noteq> row_date r) db @ [r]"

text \<open>\<^verbatim>\<open>DELETE FROM btc_price_cache WHERE timestamp < ?\<close>: the table left, and \<^verbatim>\<open>changes\<close>.\<close>

definition db_delete_older :: "cache_table \<Rightarrow> int \<Rightarrow> cache_table \<times> nat" where
  "db_delete_older db cutoff =
     (filter (\<lambda>r. \<not> row_timestamp r < cutoff) db,
      length (filter (\<lambda>r. row_timestamp r < cutoff) db))"

definition oneDayMs :: int where
  "oneDayMs = 24 * 60 * 60 * 1000"

text \<open>\<^verbatim>\<open>getPriceFromCache(date)\<close>, with \<open>now\<close> the value of \<^verbatim>\<open>Date.now()\<close> it reads.\<close>

definition getPriceFromCache :: "int \<Rightarrow> cache_table \<Rightarrow> string \<Rightarrow> jsval" where
  "getPriceFromCache now db k =
     (case db_select db k of
        Some r \<Rightarrow>
          (let age = now - row_timestamp r
           in if age < oneDayMs then JSON_parse (row_price_data r) else JNull)
      | None \<Rightarrow> JNull)"

text \<open>
  \<^verbatim>\<open>pruneOldCacheEntries(maxAgeMs = 24 * 60 * 60 * 1000)\<close>: the table after the sweep and
  the count it logs.
\<close>

definition pruneOldCacheEntries :: "int \<Rightarrow> int \<Rightarrow> cache_table \<Rightarrow> cache_table \<times> nat" where
  "pruneOldCacheEntries now maxAgeMs db =
     (let cutoff = now - maxAgeMs in db_delete_older db cutoff)"

text \<open>The call the timer makes: \<^verbatim>\<open>setInterval(() => pruneOldCacheEntries(), ...)\<close>.\<close>

definition prune_tick :: "int \<Rightarrow> cache_table \<Rightarrow> cache_table \<times> nat" where
  "prune_tick now db = pruneOldCacheEntries now (24 * 60 * 60 * 1000) db"

text \<open>\<^verbatim>\<open>savePriceToCache(date, priceData)\<close>, with \<open>now\<close> the value of \<^verbatim>\<open>Date.now()\<close> it reads.\<close>

definition savePriceToCache :: "int \<Rightarrow> string \<Rightarrow> jsval \<Rightarrow> cache_table \<Rightarrow> cache_table" where
  "savePriceToCache now k priceData db =
     db_insert_or_replace db
       \<lparr>row_date = k, row_price_data = JSON_stringify priceData, row_timestamp = now\<rparr>"

section \<open>The world outside: HTTP and the upstream API\<close>

text \<open>
  What \<^verbatim>\<open>await fetch(url)\<close> gives: the promise rejects, or a response with its
  \<^verbatim>\<open>ok\<close>, \<^verbatim>\<open>status\<close> and \<^verbatim>\<open>statusText\<close> fields and what
  \<^verbatim>\<open>await response.json()\<close> resolves to (\<open>None\<close> when the body is not JSON and
  the promise rejects).
\<close>

datatype fetch_result =
    Rejected
  | Response bool nat string "jsval option"

text \<open>What a handler does to the outside, in order: upstream calls and statements run on the table.\<close>

datatype effect =
    Fetch string
  | DbSelect string
  | DbInsert string

fun is_fetch :: "effect \<Rightarrow> bool" where
  "is_fetch (Fetch u) = True"
| "is_fetch e = False"

fun is_db :: "effect \<Rightarrow> bool" where
  "is_db (Fetch u) = False"
| "is_db e = True"

definition upstream_calls :: "effect list \<Rightarrow> nat" where
  "upstream_calls es = length (filter is_fetch es)"

record http_response =
  status :: nat
  body :: json_text

text \<open>\<^verbatim>\<open>res.status(code).json(v)\<close>; \<^verbatim>\<open>res.json(v)\<close> is the same with code 200.\<close>

definition res_json :: "nat \<Rightarrow> jsval \<Rightarrow> http_response" where
  "res_json code v = \<lparr>status = code, body = JSON_stringify v\<rparr>"

definition error_body :: "string \<Rightarrow> jsval" where
  "error_body msg = JObj [(''error'', JStr msg)]"

text \<open>What a request leaves behind: the response sent, the state after it, and its effects.\<close>

record 's outcome =
  response :: http_response
  state_after :: 's
  effects :: "effect list"

section \<open>\<^verbatim>\<open>GET /btc-data\<close>\<close>

record live_cache =
  cachedBtcData :: jsval
  lastFetchTime :: int

text \<open>\<^verbatim>\<open>let cachedBtcData = null; let lastFetchTime = 0;\<close>\<close>

definition initial_live_cache :: live_cache where
  "initial_live_cache = \<lparr>cachedBtcData = JNull, lastFetchTime = 0\<rparr>"

definition CACHE_DURATION_MS :: int where
  "CACHE_DURATION_MS = 5 * 60 * 1000"

definition live_currencies :: "string list" where
  "live_currencies = [''usd'', ''aud'', ''gbp'', ''eur'', ''cad'']"

definition btc_data_url :: "string \<Rightarrow> string list \<Rightarrow> string" where
  "btc_data_url API_KEY currencies =
     ''https://api.coingecko.com/api/v3/simple/price?ids=bitcoin&vs_currencies='' @
     join '','' currencies @
     ''&include_market_cap=true&include_24hr_change=true&x_cg_demo_api_key='' @ API_KEY"

text \<open>\<^verbatim>\<open>data.bitcoin[k]\<close>\<close>

definition bitcoin_field :: "jsval \<Rightarrow> string \<Rightarrow> js_exn + jsval" where
  "bitcoin_field data k =
     (case js_member data ''bitcoin'' of
        Inl e \<Rightarrow> Inl e
      | Inr bitcoin \<Rightarrow> js_member bitcoin k)"

text \<open>The \<^verbatim>\<open>currencies.forEach\<close> loop filling \<^verbatim>\<open>btcData\<close>.\<close>

fun format_currencies ::
  "jsval \<Rightarrow> string list \<Rightarrow> (string \<times> jsval) list \<Rightarrow> js_exn + (string \<times> jsval) list" where
  "format_currencies data [] btcData = Inr btcData"
| "format_currencies data (currency # rest) btcData =
     (case bitcoin_field data currency of
        Inl e \<Rightarrow> Inl e
      | Inr price \<Rightarrow>
     (case bitcoin_field data (currency @ ''_24h_change'') of
        Inl e \<Rightarrow> Inl e
      | Inr percentChange24h \<Rightarrow>
     (case bitcoin_field data (currency @ ''_market_cap'') of
        Inl e \<Rightarrow> Inl e
      | Inr marketCap \<Rightarrow>
          format_currencies data rest
            (js_set btcData (toUpperCase currency)
               (JObj [(''price'', price),
                      (''percentChange24h'', percentChange24h),
                      (''marketCap'', marketCap)])))))"

text \<open>The body of the \<^verbatim>\<open>try\<close> block, from the response on: the new \<^verbatim>\<open>btcData\<close>, or what is thrown.\<close>

definition btc_data_try :: "fetch_result \<Rightarrow> string list \<Rightarrow> js_exn + jsval" where
  "btc_data_try r currencies =
     (case r of
        Rejected \<Rightarrow> Inl FetchError
      | Response ok code statusText payload \<Rightarrow>
          if \<not> ok then Inl (ApiError statusText)
          else
            (case payload of
               None \<Rightarrow> Inl SyntaxError
             | Some data \<Rightarrow>
                 (case format_currencies data currencies [] of
                    Inl e \<Rightarrow> Inl e
                  | Inr btcData \<Rightarrow> Inr (JObj btcData))))"

definition btc_data ::
  "string \<Rightarrow> (string \<Rightarrow> fetch_result) \<Rightarrow> int \<Rightarrow> live_cache \<Rightarrow> live_cache outcome" where
  "btc_data API_KEY fetch now st =
     (if truthy (cachedBtcData st) \<and> now - lastFetchTime st < CACHE_DURATION_MS
      then \<lparr>response = res_json 200 (cachedBtcData st), state_after = st, effects = []\<rparr>
      else
        (let currencies = live_currencies;
             url = btc_data_url API_KEY currencies
         in case btc_data_try (fetch url) currencies of
              Inr btcData \<Rightarrow>
                \<lparr>response = res_json 200 btcData,
                 state_after = \<lparr>cachedBtcData = btcData, lastFetchTime = now\<rparr>,
                 effects = [Fetch url]\<rparr>
            | Inl err \<Rightarrow>
                \<lparr>response = res_json 500 (error_body ''Failed to fetch BTC data''),
                 state_after = st,
                 effects = [Fetch url]\<rparr>))"

section \<open>\<^verbatim>\<open>GET /btc-price-history/:date\<close>\<close>

text \<open>
  \<^verbatim>\<open>req.query.currency\<close> as the query parser leaves it: absent, a string, an array
  (a repeated parameter) or an object (a bracketed one, \<^verbatim>\<open>currency[key]=value\<close>), with its
  own keys and their values. The parser lets a key of such an object be any name, also
  \<^verbatim>\<open>toString\<close>.
\<close>

datatype query_value =
    QString string
  | QArray "query_value list"
  | QObject "(string \<times> query_value) list"

record request =
  params_date :: string
  query_currency :: "query_value option"

text \<open>The results of a list of conversions, or the first error among them.\<close>

fun sequence_results :: "('e + 'a) list \<Rightarrow> 'e + 'a list" where
  "sequence_results [] = Inr []"
| "sequence_results (Inl e # rest) = Inl e"
| "sequence_results (Inr x # rest) =
     (case sequence_results rest of Inl e \<Rightarrow> Inl e | Inr xs \<Rightarrow> Inr (x # xs))"

text \<open>
  \<^verbatim>\<open>v.toString()\<close> on such a value. A string is itself; an array joins the strings of
  its elements with a comma. An object without a key \<^verbatim>\<open>toString\<close> of its own inherits
  the method and gives \<^verbatim>\<open>[object Object]\<close>. An object with its own key \<^verbatim>\<open>toString\<close>
  holds a parsed value there, not a function: calling it is a TypeError, and so is
  converting the object to a string inside the join of an array.
\<close>

primrec qv_toString :: "query_value \<Rightarrow> js_exn + string" where
  "qv_toString (QString s) = Inr s"
| "qv_toString (QArray xs) =
     (case sequence_results (map qv_toString xs) of
        Inl e \<Rightarrow> Inl e
      | Inr ss \<Rightarrow> Inr (join '','' ss))"
| "qv_toString (QObject kvs) =
     (if ''toString'' \<in> set (map fst kvs) then Inl TypeError else Inr ''[object Object]'')"

text \<open>
  \<^verbatim>\<open>req.query.currency?.toString().toLowerCase()\<close>: the value of \<^verbatim>\<open>currencyParam\<close>
  (\<open>None\<close> is \<^verbatim>\<open>undefined\<close>), or what the statement throws.
\<close>

definition currencyParam :: "query_value option \<Rightarrow> js_exn + string option" where
  "currencyParam q =
     (case q of
        None \<Rightarrow> Inr None
      | Some v \<Rightarrow>
          (case qv_toString v of
             Inl e \<Rightarrow> Inl e
           | Inr s \<Rightarrow> Inr (Some (toLowerCase s))))"

definition supportedCurrencies :: "string list" where
  "supportedCurrencies = [''usd'', ''aud'', ''cad'', ''eur'', ''gbp'']"

text \<open>\<^verbatim>\<open>/^\d{2}-\d{2}-\d{4}$/.test(date)\<close>: the pattern as a list of atoms, matched from the
  first character to the last.\<close>

datatype atom = Digit | Lit char

definition is_digit :: "char \<Rightarrow> bool" where
  "is_digit c = (c \<in> set ''0123456789'')"

fun atom_matches :: "atom \<Rightarrow> char \<Rightarrow> bool" where
  "atom_matches Digit c = is_digit c"
| "atom_matches (Lit l) c = (c = l)"

fun regex_test :: "atom list \<Rightarrow> string \<Rightarrow> bool" where
  "regex_test [] [] = True"
| "regex_test (a # as) (c # cs) = (atom_matches a c \<and> regex_test as cs)"
| "regex_test [] (c # cs) = False"
| "regex_test (a # as) [] = False"

definition date_pattern :: "atom list" where
  "date_pattern =
     replicate 2 Digit @ [Lit CHR ''-''] @ replicate 2 Digit @ [Lit CHR ''-''] @ replicate 4 Digit"

text \<open>\<^verbatim>\<open>currencyParam && supportedCurrencies.includes(currencyParam)\<close>\<close>

definition isSingleCurrency :: "string option \<Rightarrow> bool" where
  "isSingleCurrency p =
     (case p of
        None \<Rightarrow> False
      | Some c \<Rightarrow> c \<noteq> [] \<and> c \<in> set supportedCurrencies)"

definition currenciesToReturn :: "string option \<Rightarrow> string list" where
  "currenciesToReturn p =
     (case p of
        None \<Rightarrow> supportedCurrencies
      | Some c \<Rightarrow> if isSingleCurrency p then [c] else supportedCurrencies)"

definition cacheKey :: "string \<Rightarrow> string list \<Rightarrow> string" where
  "cacheKey d currencies = d @ ''-'' @ join '','' currencies"

definition history_url :: "string \<Rightarrow> string \<Rightarrow> string" where
  "history_url API_KEY d =
     ''https://api.coingecko.com/api/v3/coins/bitcoin/history?date='' @ d @
     ''&localization=false&x_cg_demo_api_key='' @ API_KEY"

text \<open>The \<^verbatim>\<open>for (const currency of currenciesToReturn)\<close> loop filling \<^verbatim>\<open>filteredPrices\<close>.\<close>

fun filter_prices ::
  "jsval \<Rightarrow> string list \<Rightarrow> (string \<times> jsval) list \<Rightarrow> js_exn + (string \<times> jsval) list" where
  "filter_prices allPrices [] filteredPrices = Inr filteredPrices"
| "filter_prices allPrices (currency # rest) filteredPrices =
     (case js_member allPrices currency of
        Inl e \<Rightarrow> Inl e
      | Inr price \<Rightarrow>
          if truthy price
          then filter_prices allPrices rest (js_set filteredPrices currency price)
          else filter_prices allPrices rest filteredPrices)"

text \<open>
  The \<^verbatim>\<open>try\<close> block: what it returns through \<^verbatim>\<open>res\<close> or throws, the table after it
  and its effects. \<open>now\<close> is the clock read by \<^verbatim>\<open>getPriceFromCache\<close>, \<open>now'\<close> the
  clock read by \<^verbatim>\<open>savePriceToCache\<close> once the upstream has answered.
\<close>

definition btc_price_history_try ::
  "string \<Rightarrow> (string \<Rightarrow> fetch_result) \<Rightarrow> int \<Rightarrow> int \<Rightarrow> string \<Rightarrow> string list \<Rightarrow> cache_table \<Rightarrow>
   (js_exn + http_response) \<times> cache_table \<times> effect list" where
  "btc_price_history_try API_KEY fetch now now' d currencies db =
     (let k = cacheKey d currencies;
          cached = getPriceFromCache now db k
      in if truthy cached then (Inr (res_json 200 cached), db, [DbSelect k])
         else
           (let url = history_url API_KEY d
            in case fetch url of
                 Rejected \<Rightarrow> (Inl FetchError, db, [DbSelect k, Fetch url])
               | Response ok code statusText payload \<Rightarrow>
                   if \<not> ok then (Inl (StatusError code), db, [DbSelect k, Fetch url])
                   else
                     (case payload of
                        None \<Rightarrow> (Inl SyntaxError, db, [DbSelect k, Fetch url])
                      | Some data \<Rightarrow>
                          (let allPrices =
                                 js_opt_member (js_opt_member data ''market_data'') ''current_price''
                           in if \<not> truthy allPrices
                              then (Inr (res_json 400
                                           (error_body ''Price data not available for this date'')),
                                    db, [DbSelect k, Fetch url])
                              else
                                (case filter_prices allPrices currencies [] of
                                   Inl e \<Rightarrow> (Inl e, db, [DbSelect k, Fetch url])
                                 | Inr filteredPrices \<Rightarrow>
                                     if length filteredPrices = 0
                                     then (Inr (res_json 400
                                                  (error_body
                                                     ''No supported currencies found for this date'')),
                                           db, [DbSelect k, Fetch url])
                                     else
                                       (let result =
                                              JObj [(''date'', JStr d),
                                                    (''prices'', JObj filteredPrices)]
                                        in (Inr (res_json 200 result),
                                            savePriceToCache now' k result db,
                                            [DbSelect k, Fetch url, DbInsert k])))))))"

text \<open>
  The handler from the statement after \<^verbatim>\<open>currencyParam\<close> on, with \<open>cur\<close> the value
  that statement gave.
\<close>

definition btc_price_history_from ::
  "string \<Rightarrow> (string \<Rightarrow> fetch_result) \<Rightarrow> int \<Rightarrow> int \<Rightarrow> request \<Rightarrow> string option \<Rightarrow>
   cache_table \<Rightarrow> cache_table outcome" where
  "btc_price_history_from API_KEY fetch now now' req cur db =
     (let d = params_date req
      in if \<not> regex_test date_pattern d
         then \<lparr>response = res_json 400 (error_body ''Invalid date format. Use dd-mm-yyyy.''),
               state_after = db, effects = []\<rparr>
         else
           (case btc_price_history_try API_KEY fetch now now' d (currenciesToReturn cur) db of
              (Inr r, db', es) \<Rightarrow> \<lparr>response = r, state_after = db', effects = es\<rparr>
            | (Inl err, db', es) \<Rightarrow>
                \<lparr>response = res_json 500 (error_body ''Failed to fetch BTC price history''),
                 state_after = db', effects = es\<rparr>))"

text \<open>
  The handler. The statement computing \<^verbatim>\<open>currencyParam\<close> comes first, before the test of
  the date and outside the \<^verbatim>\<open>try\<close> block: when it throws, the \<^verbatim>\<open>async\<close> handler
  rejects (\<open>Inl\<close>) having sent no response, made no upstream call and run no statement
  on the table.
\<close>

definition btc_price_history ::
  "string \<Rightarrow> (string \<Rightarrow> fetch_result) \<Rightarrow> int \<Rightarrow> int \<Rightarrow> request \<Rightarrow> cache_table \<Rightarrow>
   js_exn + cache_table outcome" where
  "btc_price_history API_KEY fetch now now' req db =
     (case currencyParam (query_currency req) of
        Inl e \<Rightarrow> Inl e
      | Inr cur \<Rightarrow> Inr (btc_price_history_from API_KEY fetch now now' req cur db))"

section \<open>Properties of states and the filter in the specification's words\<close>

fun is_object :: "jsval \<Rightarrow> bool" where
  "is_object (JObj kvs) = True"
| "is_object v = False"

text \<open>
  The lists \<^verbatim>\<open>currenciesToReturn\<close> can be: the supported list, or one supported
  currency. A key is well formed when it is the composite key of its first ten
  characters, a date of the pattern, with one of these lists.
\<close>

definition effective_currency_lists :: "string list list" where
  "effective_currency_lists = supportedCurrencies # map (\<lambda>c. [c]) supportedCurrencies"

definition well_formed_key :: "string \<Rightarrow> bool" where
  "well_formed_key k =
     (regex_test date_pattern (take 10 k) \<and>
      k \<in> set (map (cacheKey (take 10 k)) effective_currency_lists))"

text \<open>
  What the table holds when only \<^verbatim>\<open>savePriceToCache\<close>, called by the historical
  request, has written to it: one row for a key, every key well formed, and every
  \<^verbatim>\<open>price_data\<close> the JSON text of an object.
\<close>

definition table_ok :: "cache_table \<Rightarrow> bool" where
  "table_ok db =
     (distinct (map row_date db) \<and>
      list_all (\<lambda>r. well_formed_key (row_date r) \<and> is_object (row_price_data r) \<and>
                     JSON_stringify (row_price_data r) = row_price_data r) db)"

text \<open>What the two variables of \<^verbatim>\<open>/btc-data\<close> hold: \<^verbatim>\<open>null\<close>, or an object built by a refresh.\<close>

definition live_ok :: "live_cache \<Rightarrow> bool" where
  "live_ok st = (cachedBtcData st = JNull \<or> is_object (cachedBtcData st))"

text \<open>
  The filter of the historical request as the specification words it: of the effective
  currencies, those present in the price-data section, whatever their value.
\<close>

definition spec_present_prices :: "jsval \<Rightarrow> string list \<Rightarrow> (string \<times> jsval) list" where
  "spec_present_prices allPrices currencies =
     map (\<lambda>c. (c, js_get allPrices c)) (filter (\<lambda>c. js_get allPrices c \<noteq> JUndefined) currencies)"

text \<open>The filter as the loop computes it: those whose price is truthy.\<close>

definition truthy_prices :: "jsval \<Rightarrow> string list \<Rightarrow> (string \<times> jsval) list" where
  "truthy_prices allPrices currencies =
     map (\<lambda>c. (c, js_get allPrices c)) (filter (\<lambda>c. truthy (js_get allPrices c)) currencies)"

text \<open>
  What a refresh of \<^verbatim>\<open>/btc-data\<close> leaves in \<^verbatim>\<open>btcData\<close> when the loop runs through:
  for every currency the three fields read from the \<^verbatim>\<open>bitcoin\<close> section, under the
  upper-cased code.
\<close>

definition live_entry :: "jsval \<Rightarrow> string \<Rightarrow> jsval" where
  "live_entry bitcoin currency =
     JObj [(''price'', js_get bitcoin currency),
           (''percentChange24h'', js_get bitcoin (currency @ ''_24h_change'')),
           (''marketCap'', js_get bitcoin (currency @ ''_market_cap''))]"

definition live_payload :: "jsval \<Rightarrow> jsval" where
  "live_payload bitcoin =
     JObj [(''USD'', live_entry bitcoin ''usd''),
           (''AUD'', live_entry bitcoin ''aud''),
           (''GBP'', live_entry bitcoin ''gbp''),
           (''EUR'', live_entry bitcoin ''eur''),
           (''CAD'', live_entry bitcoin ''cad'')]"

text \<open>
  The answers of the upstream on which the \<^verbatim>\<open>try\<close> block of \<^verbatim>\<open>/btc-data\<close> throws: the
  call is rejected, the status is not a success, the body is not JSON, or the body has no
  \<^verbatim>\<open>bitcoin\<close> section to read the fields from.
\<close>

fun refresh_aborts :: "fetch_result \<Rightarrow> bool" where
  "refresh_aborts Rejected = True"
| "refresh_aborts (Response ok code txt None) = True"
| "refresh_aborts (Response ok code txt (Some data)) =
     (\<not> ok \<or> nullish data \<or> nullish (js_get data ''bitcoin''))"

section \<open>Serialising twice\<close>

lemma stringify_undef_iff: "JSON_stringify v = JUndefined \<longleftrightarrow> v = JUndefined"
  by (cases v) simp_all

lemma stringify_arr_idem:
  "\<forall>x\<in>set xs. JSON_stringify (JSON_stringify x) = JSON_stringify x \<Longrightarrow>
   map (undefined_to_null \<circ> JSON_stringify) (map (undefined_to_null \<circ> JSON_stringify) xs) =
   map (undefined_to_null \<circ> JSON_stringify) xs"
  by (induction xs) (auto simp: undefined_to_null_def stringify_undef_iff)

lemma stringify_obj_idem:
  "\<forall>kv\<in>set kvs. JSON_stringify (JSON_stringify (snd kv)) = JSON_stringify (snd kv) \<Longrightarrow>
   filter (\<lambda>kv. snd kv \<noteq> JUndefined) (map (map_prod id JSON_stringify)
     (filter (\<lambda>kv. snd kv \<noteq> JUndefined) (map (map_prod id JSON_stringify) kvs))) =
   filter (\<lambda>kv. snd kv \<noteq> JUndefined) (map (map_prod id JSON_stringify) kvs)"
  by (induction kvs) (auto simp: stringify_undef_iff)

text \<open>The text of a value read back from its text is the same text.\<close>

lemma stringify_idem: "JSON_stringify (JSON_stringify v) = JSON_stringify v"
proof (induction v)
  case (JArr xs)
  then show ?case
    using stringify_arr_idem [of xs] by simp
next
  case (JObj kvs)
  have "\<forall>kv\<in>set kvs. JSON_stringify (JSON_stringify (snd kv)) = JSON_stringify (snd kv)"
  proof
    fix kv assume mem: "kv \<in> set kvs"
    show "JSON_stringify (JSON_stringify (snd kv)) = JSON_stringify (snd kv)"
      by (rule JObj [OF mem]) (cases kv, simp)
  qed
  then show ?case
    using stringify_obj_idem [of kvs] by simp
qed simp_all

lemma stringify_error_body: "JSON_stringify (error_body msg) = error_body msg"
  by (simp add: error_body_def)

lemma truthy_not_nullish: "truthy v \<Longrightarrow> \<not> nullish v"
  by (cases v) simp_all

lemma is_object_truthy: "is_object v \<Longrightarrow> truthy v"
  by (cases v) simp_all

lemma is_object_stringify: "is_object (JSON_stringify v) = is_object v"
  by (cases v) simp_all

section \<open>The loop of the historical request\<close>

lemma js_set_fresh: "k \<notin> fst ` set ps \<Longrightarrow> js_set ps k v = ps @ [(k, v)]"
  by (induction ps) auto

lemma filter_prices_eq:
  "\<not> nullish a \<Longrightarrow> distinct cs \<Longrightarrow> set cs \<inter> fst ` set acc = {} \<Longrightarrow>
   filter_prices a cs acc = Inr (acc @ truthy_prices a cs)"
proof (induction cs arbitrary: acc)
  case Nil
  then show ?case by (simp add: truthy_prices_def)
next
  case (Cons c cs)
  then show ?case
    by (auto simp: js_member_def js_set_fresh truthy_prices_def)
qed

lemma distinct_supportedCurrencies: "distinct supportedCurrencies"
  by (simp add: supportedCurrencies_def)

lemma distinct_currenciesToReturn: "distinct (currenciesToReturn p)"
  by (simp add: currenciesToReturn_def distinct_supportedCurrencies split: option.splits)

section \<open>The paths of the historical request\<close>

lemma history_invalid:
  "\<not> regex_test date_pattern (params_date req) \<Longrightarrow>
   btc_price_history_from API_KEY fetch now now' req cur db =
     \<lparr>response = res_json 400 (error_body ''Invalid date format. Use dd-mm-yyyy.''),
      state_after = db, effects = []\<rparr>"
  by (simp add: btc_price_history_from_def)

lemma history_hit:
  assumes "regex_test date_pattern (params_date req)"
    and "k = cacheKey (params_date req) (currenciesToReturn cur)"
    and "truthy (getPriceFromCache now db k)"
  shows "btc_price_history_from API_KEY fetch now now' req cur db =
     \<lparr>response = res_json 200 (getPriceFromCache now db k), state_after = db,
      effects = [DbSelect k]\<rparr>"
  using assms by (simp add: btc_price_history_from_def btc_price_history_try_def Let_def)

lemma history_miss_failed:
  assumes "regex_test date_pattern (params_date req)"
    and "k = cacheKey (params_date req) (currenciesToReturn cur)"
    and "\<not> truthy (getPriceFromCache now db k)"
    and "url = history_url API_KEY (params_date req)"
    and "fetch url = Rejected \<or> fetch url = Response False code txt payload \<or>
         fetch url = Response True code txt None"
  shows "btc_price_history_from API_KEY fetch now now' req cur db =
     \<lparr>response = res_json 500 (error_body ''Failed to fetch BTC price history''),
      state_after = db, effects = [DbSelect k, Fetch url]\<rparr>"
  using assms by (auto simp: btc_price_history_from_def btc_price_history_try_def Let_def)

lemma history_miss_data:
  assumes "regex_test date_pattern (params_date req)"
    and "cs = currenciesToReturn cur"
    and "k = cacheKey (params_date req) cs"
    and "\<not> truthy (getPriceFromCache now db k)"
    and "url = history_url API_KEY (params_date req)"
    and "fetch url = Response True code txt (Some data)"
    and "a = js_opt_member (js_opt_member data ''market_data'') ''current_price''"
  shows "btc_price_history_from API_KEY fetch now now' req cur db =
     (if \<not> truthy a
      then \<lparr>response = res_json 400 (error_body ''Price data not available for this date''),
            state_after = db, effects = [DbSelect k, Fetch url]\<rparr>
      else if truthy_prices a cs = []
      then \<lparr>response = res_json 400 (error_body ''No supported currencies found for this date''),
            state_after = db, effects = [DbSelect k, Fetch url]\<rparr>
      else \<lparr>response = res_json 200 (JObj [(''date'', JStr (params_date req)),
                                           (''prices'', JObj (truthy_prices a cs))]),
            state_after = savePriceToCache now' k
               (JObj [(''date'', JStr (params_date req)), (''prices'', JObj (truthy_prices a cs))]) db,
            effects = [DbSelect k, Fetch url, DbInsert k]\<rparr>)"
proof (cases "truthy a")
  case False
  with assms show ?thesis
    by (simp add: btc_price_history_from_def btc_price_history_try_def Let_def)
next
  case True
  then have "filter_prices a cs [] = Inr (truthy_prices a cs)"
    using filter_prices_eq [of a cs "[]"] assms(2)
    by (simp add: truthy_not_nullish distinct_currenciesToReturn)
  with True assms show ?thesis
    by (simp add: btc_price_history_from_def btc_price_history_try_def Let_def)
qed

lemma history_valid_effects:
  assumes "regex_test date_pattern (params_date req)"
  shows "\<exists>es. effects (btc_price_history_from API_KEY fetch now now' req cur db) =
     DbSelect (cacheKey (params_date req) (currenciesToReturn cur)) # es"
  using assms
  by (simp add: btc_price_history_from_def btc_price_history_try_def Let_def
       split: fetch_result.splits option.splits sum.splits)

lemma history_valid_response:
  assumes "regex_test date_pattern (params_date req)"
  shows "response (btc_price_history_from API_KEY fetch now now' req cur db) \<noteq>
     res_json 400 (error_body ''Invalid date format. Use dd-mm-yyyy.'')"
  using assms
  by (simp add: btc_price_history_from_def btc_price_history_try_def Let_def res_json_def error_body_def
       split: fetch_result.splits option.splits sum.splits)

section \<open>The date pattern\<close>

lemma regex_test_ConsE:
  assumes "regex_test (p # ps) s"
  obtains c cs where "s = c # cs" and "atom_matches p c" and "regex_test ps cs"
  using assms by (cases s) simp_all

lemma regex_test_Nil: "regex_test [] s \<longleftrightarrow> s = []"
  by (cases s) simp_all

lemma date_pattern_unfold:
  "date_pattern =
     [Digit, Digit, Lit CHR ''-'', Digit, Digit, Lit CHR ''-'', Digit, Digit, Digit, Digit]"
  by (simp add: date_pattern_def numeral_eq_Suc)

lemma date_pattern_shape:
  "regex_test date_pattern d \<longleftrightarrow>
     (\<exists>a b c e f g h i. d = [a, b, CHR ''-'', c, e, CHR ''-'', f, g, h, i] \<and>
        is_digit a \<and> is_digit b \<and> is_digit c \<and> is_digit e \<and>
        is_digit f \<and> is_digit g \<and> is_digit h \<and> is_digit i)"
proof
  assume "regex_test date_pattern d"
  then show "\<exists>a b c e f g h i. d = [a, b, CHR ''-'', c, e, CHR ''-'', f, g, h, i] \<and>
        is_digit a \<and> is_digit b \<and> is_digit c \<and> is_digit e \<and>
        is_digit f \<and> is_digit g \<and> is_digit h \<and> is_digit i"
    unfolding date_pattern_unfold
    apply (elim regex_test_ConsE)
    apply (simp only: regex_test_Nil atom_matches.simps)
    apply blast
    done
next
  assume "\<exists>a b c e f g h i. d = [a, b, CHR ''-'', c, e, CHR ''-'', f, g, h, i] \<and>
        is_digit a \<and> is_digit b \<and> is_digit c \<and> is_digit e \<and>
        is_digit f \<and> is_digit g \<and> is_digit h \<and> is_digit i"
  then obtain a b c e f g h i where "d = [a, b, CHR ''-'', c, e, CHR ''-'', f, g, h, i]"
    and "is_digit a" "is_digit b" "is_digit c" "is_digit e"
    and "is_digit f" "is_digit g" "is_digit h" "is_digit i"
    by blast
  then show "regex_test date_pattern d"
    unfolding date_pattern_unfold by simp
qed

section \<open>The pruning sweep\<close>

text \<open>
  C3. The sweep the timer runs keeps exactly the rows that are not older than 24 hours
  (\<open>now - timestamp > 24 h\<close> is what it deletes, in the order the table had) and
  reports how many it deleted; a second sweep at the same instant on the table it left
  deletes nothing; of two rows written 25 hours and 1 hour before \<open>now\<close> it deletes
  the first and keeps the second.
\<close>

theorem prune_sweep_exact:
  "fst (prune_tick now db) = filter (\<lambda>r. \<not> now - row_timestamp r > oneDayMs) db \<and>
   snd (prune_tick now db) = length (filter (\<lambda>r. now - row_timestamp r > oneDayMs) db) \<and>
   prune_tick now (fst (prune_tick now db)) = (fst (prune_tick now db), 0) \<and>
   prune_tick now
     [\<lparr>row_date = k1, row_price_data = p1, row_timestamp = now - 25 * 60 * 60 * 1000\<rparr>,
      \<lparr>row_date = k2, row_price_data = p2, row_timestamp = now - 1 * 60 * 60 * 1000\<rparr>] =
     ([\<lparr>row_date = k2, row_price_data = p2, row_timestamp = now - 1 * 60 * 60 * 1000\<rparr>], 1)"
proof -
  have age: "\<And>r. (row_timestamp r < now - 86400000) = (now - row_timestamp r > oneDayMs)"
    by (auto simp: oneDayMs_def)
  have sweep: "prune_tick now db =
      (filter (\<lambda>r. \<not> now - row_timestamp r > oneDayMs) db,
       length (filter (\<lambda>r. now - row_timestamp r > oneDayMs) db))" for db
    by (simp add: prune_tick_def pruneOldCacheEntries_def db_delete_older_def age Let_def)
  have again: "prune_tick now (fst (prune_tick now db)) = (fst (prune_tick now db), 0)"
    by (simp add: sweep)
  have example: "prune_tick now
     [\<lparr>row_date = k1, row_price_data = p1, row_timestamp = now - 25 * 60 * 60 * 1000\<rparr>,
      \<lparr>row_date = k2, row_price_data = p2, row_timestamp = now - 1 * 60 * 60 * 1000\<rparr>] =
     ([\<lparr>row_date = k2, row_price_data = p2, row_timestamp = now - 1 * 60 * 60 * 1000\<rparr>], 1)"
    by (simp add: sweep oneDayMs_def)
  show ?thesis
    using again example by (simp add: sweep)
qed

section \<open>The date test, after the currency statement\<close>

lemma date_test_after_currency:
  "(regex_test date_pattern d \<longleftrightarrow>
      (\<exists>a b c e f g h i. d = [a, b, CHR ''-'', c, e, CHR ''-'', f, g, h, i] \<and>
         is_digit a \<and> is_digit b \<and> is_digit c \<and> is_digit e \<and>
         is_digit f \<and> is_digit g \<and> is_digit h \<and> is_digit i)) \<and>
   (regex_test date_pattern (params_date req) \<longrightarrow>
      (\<exists>es. effects (btc_price_history_from API_KEY fetch now now' req cur db) =
         DbSelect (cacheKey (params_date req)
                     (currenciesToReturn cur)) # es) \<and>
      response (btc_price_history_from API_KEY fetch now now' req cur db) \<noteq>
        \<lparr>status = 400, body = JObj [(''error'', JStr ''Invalid date format. Use dd-mm-yyyy.'')]\<rparr>) \<and>
   (\<not> regex_test date_pattern (params_date req) \<longrightarrow>
      btc_price_history_from API_KEY fetch now now' req cur db =
        \<lparr>response =
           \<lparr>status = 400, body = JObj [(''error'', JStr ''Invalid date format. Use dd-mm-yyyy.'')]\<rparr>,
         state_after = db, effects = []\<rparr>)"
proof -
  have msg: "res_json 400 (error_body ''Invalid date format. Use dd-mm-yyyy.'') =
      \<lparr>status = 400, body = JObj [(''error'', JStr ''Invalid date format. Use dd-mm-yyyy.'')]\<rparr>"
    by (simp add: res_json_def error_body_def)
  show ?thesis
    using date_pattern_shape [of d]
      history_valid_effects [of req API_KEY fetch now now' cur db]
      history_valid_response [of req API_KEY fetch now now' cur db]
      history_invalid [of req API_KEY fetch now now' cur db]
    unfolding msg by blast
qed

section \<open>The effective currencies\<close>

lemma currenciesToReturn_recognised:
  "c \<in> set supportedCurrencies \<Longrightarrow> currenciesToReturn (Some c) = [c]"
  by (auto simp: currenciesToReturn_def isSingleCurrency_def supportedCurrencies_def)

lemma currenciesToReturn_other:
  "p \<notin> Some ` set supportedCurrencies \<Longrightarrow> currenciesToReturn p = supportedCurrencies"
  by (auto simp: currenciesToReturn_def isSingleCurrency_def split: option.splits)

lemma history_depends_on_currencies:
  "currenciesToReturn cur = currenciesToReturn cur' \<Longrightarrow> params_date req = params_date req' \<Longrightarrow>
   btc_price_history_from API_KEY fetch now now' req cur db =
   btc_price_history_from API_KEY fetch now now' req' cur' db"
  by (simp add: btc_price_history_from_def Let_def)

section \<open>The paths of the current-price request\<close>

lemma bitcoin_field_throws:
  "nullish data \<or> nullish (js_get data ''bitcoin'') \<Longrightarrow> bitcoin_field data k = Inl TypeError"
  by (auto simp: bitcoin_field_def js_member_def)

lemma bitcoin_field_reads:
  "\<not> nullish data \<Longrightarrow> \<not> nullish (js_get data ''bitcoin'') \<Longrightarrow>
   bitcoin_field data k = Inr (js_get (js_get data ''bitcoin'') k)"
  by (simp add: bitcoin_field_def js_member_def)

lemma toUpperCase_live:
  "toUpperCase ''usd'' = ''USD''" "toUpperCase ''aud'' = ''AUD''" "toUpperCase ''gbp'' = ''GBP''"
  "toUpperCase ''eur'' = ''EUR''" "toUpperCase ''cad'' = ''CAD''"
  by (simp_all add: toUpperCase_def upper_letters_def lower_letters_def)

lemma format_currencies_throws:
  "nullish data \<or> nullish (js_get data ''bitcoin'') \<Longrightarrow>
   format_currencies data live_currencies [] = Inl TypeError"
  by (simp add: live_currencies_def bitcoin_field_throws)

lemma format_currencies_runs:
  "\<not> nullish data \<Longrightarrow> \<not> nullish (js_get data ''bitcoin'') \<Longrightarrow>
   JObj (case format_currencies data live_currencies [] of Inr kvs \<Rightarrow> kvs | Inl e \<Rightarrow> []) =
     live_payload (js_get data ''bitcoin'') \<and>
   (\<exists>kvs. format_currencies data live_currencies [] = Inr kvs)"
  by (simp add: live_currencies_def bitcoin_field_reads toUpperCase_live live_payload_def
        live_entry_def)

lemma btc_data_try_cases:
  "btc_data_try r live_currencies =
     (case r of
        Rejected \<Rightarrow> Inl FetchError
      | Response ok code txt payload \<Rightarrow>
          if \<not> ok then Inl (ApiError txt)
          else (case payload of
                  None \<Rightarrow> Inl SyntaxError
                | Some data \<Rightarrow>
                    if nullish data \<or> nullish (js_get data ''bitcoin'') then Inl TypeError
                    else Inr (live_payload (js_get data ''bitcoin''))))"
  using format_currencies_runs format_currencies_throws
  by (fastforce simp: btc_data_try_def split: fetch_result.splits option.splits)

lemma btc_data_try_aborts:
  "refresh_aborts r \<longleftrightarrow> (\<exists>e. btc_data_try r live_currencies = Inl e)"
  by (cases r rule: refresh_aborts.cases) (auto simp: btc_data_try_cases)

lemma btc_data_try_payload:
  "\<not> refresh_aborts r \<Longrightarrow> \<exists>kvs. btc_data_try r live_currencies = Inr (JObj kvs)"
  by (cases r rule: refresh_aborts.cases) (auto simp: btc_data_try_cases live_payload_def)

lemma btc_data_fresh:
  "truthy (cachedBtcData st) \<Longrightarrow> now - lastFetchTime st < CACHE_DURATION_MS \<Longrightarrow>
   btc_data API_KEY fetch now st =
     \<lparr>response = res_json 200 (cachedBtcData st), state_after = st, effects = []\<rparr>"
  by (simp add: btc_data_def)

lemma btc_data_aborted:
  "\<not> (truthy (cachedBtcData st) \<and> now - lastFetchTime st < CACHE_DURATION_MS) \<Longrightarrow>
   refresh_aborts (fetch (btc_data_url API_KEY live_currencies)) \<Longrightarrow>
   btc_data API_KEY fetch now st =
     \<lparr>response = res_json 500 (error_body ''Failed to fetch BTC data''), state_after = st,
      effects = [Fetch (btc_data_url API_KEY live_currencies)]\<rparr>"
  by (auto simp: btc_data_def Let_def btc_data_try_aborts)

lemma btc_data_refreshed:
  "\<not> (truthy (cachedBtcData st) \<and> now - lastFetchTime st < CACHE_DURATION_MS) \<Longrightarrow>
   \<not> refresh_aborts (fetch (btc_data_url API_KEY live_currencies)) \<Longrightarrow>
   \<exists>kvs. btc_data_try (fetch (btc_data_url API_KEY live_currencies)) live_currencies = Inr (JObj kvs) \<and>
     btc_data API_KEY fetch now st =
     \<lparr>response = res_json 200 (JObj kvs),
      state_after = \<lparr>cachedBtcData = JObj kvs, lastFetchTime = now\<rparr>,
      effects = [Fetch (btc_data_url API_KEY live_currencies)]\<rparr>"
  using btc_data_try_payload [of "fetch (btc_data_url API_KEY live_currencies)"]
  by (auto simp: btc_data_def Let_def)

lemma live_ok_initial: "live_ok initial_live_cache"
  by (simp add: live_ok_def initial_live_cache_def)

lemma live_ok_truthy: "live_ok st \<Longrightarrow> truthy (cachedBtcData st) \<longleftrightarrow> cachedBtcData st \<noteq> JNull"
  by (auto simp: live_ok_def is_object_truthy)

lemma live_ok_preserved: "live_ok st \<Longrightarrow> live_ok (state_after (btc_data API_KEY fetch now st))"
proof (cases "truthy (cachedBtcData st) \<and> now - lastFetchTime st < CACHE_DURATION_MS")
  case True
  then show "live_ok st \<Longrightarrow> ?thesis" by (simp add: btc_data_fresh)
next
  case False
  assume ok: "live_ok st"
  show ?thesis
  proof (cases "refresh_aborts (fetch (btc_data_url API_KEY live_currencies))")
    case True
    with False ok show ?thesis by (simp add: btc_data_aborted)
  next
    case no: False
    with False btc_data_refreshed [of st now fetch API_KEY] show ?thesis
      by (auto simp: live_ok_def)
  qed
qed

section \<open>The current-price cache\<close>

text \<open>
  C2. When a payload is cached (the variable is not \<^verbatim>\<open>null\<close>; it then holds an object,
  as \<open>live_ok\<close> says and every request preserves) and less than 5 minutes have passed
  since \<^verbatim>\<open>lastFetchTime\<close>, the request answers 200 with the cached payload, makes no
  upstream call and leaves both variables as they were. When 5 minutes or more have
  passed, the request makes one upstream call. A request within 5 minutes of a
  refresh that succeeded gets the answer that refresh gave, with no upstream call.
\<close>

theorem live_cache_window:
  "(live_ok st \<and> cachedBtcData st \<noteq> JNull \<and> now - lastFetchTime st < 5 * 60 * 1000 \<longrightarrow>
      btc_data API_KEY fetch now st =
        \<lparr>response = \<lparr>status = 200, body = JSON_stringify (cachedBtcData st)\<rparr>,
         state_after = st, effects = []\<rparr>) \<and>
   (5 * 60 * 1000 \<le> now - lastFetchTime st \<longrightarrow>
      effects (btc_data API_KEY fetch now st) = [Fetch (btc_data_url API_KEY live_currencies)]) \<and>
   (status (response (btc_data API_KEY fetch now st)) = 200 \<and>
    effects (btc_data API_KEY fetch now st) \<noteq> [] \<and> now2 - now < 5 * 60 * 1000 \<longrightarrow>
      btc_data API_KEY fetch2 now2 (state_after (btc_data API_KEY fetch now st)) =
        \<lparr>response = response (btc_data API_KEY fetch now st),
         state_after = state_after (btc_data API_KEY fetch now st), effects = []\<rparr>)"
proof (intro conjI impI)
  assume "live_ok st \<and> cachedBtcData st \<noteq> JNull \<and> now - lastFetchTime st < 5 * 60 * 1000"
  then show "btc_data API_KEY fetch now st =
        \<lparr>response = \<lparr>status = 200, body = JSON_stringify (cachedBtcData st)\<rparr>,
         state_after = st, effects = []\<rparr>"
    using btc_data_fresh [of st now API_KEY fetch]
    by (simp add: live_ok_truthy CACHE_DURATION_MS_def res_json_def)
next
  assume "5 * 60 * 1000 \<le> now - lastFetchTime st"
  then have miss: "\<not> (truthy (cachedBtcData st) \<and> now - lastFetchTime st < CACHE_DURATION_MS)"
    by (simp add: CACHE_DURATION_MS_def)
  show "effects (btc_data API_KEY fetch now st) = [Fetch (btc_data_url API_KEY live_currencies)]"
    using miss by (simp add: btc_data_def Let_def split: sum.splits)
next
  let ?out = "btc_data API_KEY fetch now st"
  assume h: "status (response ?out) = 200 \<and> effects ?out \<noteq> [] \<and> now2 - now < 5 * 60 * 1000"
  have miss: "\<not> (truthy (cachedBtcData st) \<and> now - lastFetchTime st < CACHE_DURATION_MS)"
    using h by (auto simp: btc_data_fresh)
  have ran: "\<not> refresh_aborts (fetch (btc_data_url API_KEY live_currencies))"
    using h miss btc_data_aborted [of st now fetch API_KEY] by (auto simp: res_json_def)
  from miss ran btc_data_refreshed [of st now fetch API_KEY] obtain kvs where
    out: "?out = \<lparr>response = res_json 200 (JObj kvs),
      state_after = \<lparr>cachedBtcData = JObj kvs, lastFetchTime = now\<rparr>,
      effects = [Fetch (btc_data_url API_KEY live_currencies)]\<rparr>"
    by blast
  show "btc_data API_KEY fetch2 now2 (state_after ?out) =
        \<lparr>response = response ?out, state_after = state_after ?out, effects = []\<rparr>"
    using h by (simp add: out btc_data_fresh CACHE_DURATION_MS_def)
qed

theorem live_cache_window_witness:
  "btc_data ''k'' (\<lambda>u. Rejected) 2000 \<lparr>cachedBtcData = JObj [], lastFetchTime = 1000\<rparr> =
     \<lparr>response = \<lparr>status = 200, body = JObj []\<rparr>,
      state_after = \<lparr>cachedBtcData = JObj [], lastFetchTime = 1000\<rparr>, effects = []\<rparr> \<and>
   effects (btc_data ''k'' (\<lambda>u. Rejected) 300000 initial_live_cache) =
     [Fetch (btc_data_url ''k'' live_currencies)] \<and>
   btc_data ''k'' (\<lambda>u. Rejected) 2000
     (state_after (btc_data ''k''
        (\<lambda>u. Response True 200 ''OK'' (Some (JObj [(''bitcoin'', JObj [(''usd'', JNum 65000)])])))
        1000 initial_live_cache)) =
     \<lparr>response = response (btc_data ''k''
        (\<lambda>u. Response True 200 ''OK'' (Some (JObj [(''bitcoin'', JObj [(''usd'', JNum 65000)])])))
        1000 initial_live_cache),
      state_after = state_after (btc_data ''k''
        (\<lambda>u. Response True 200 ''OK'' (Some (JObj [(''bitcoin'', JObj [(''usd'', JNum 65000)])])))
        1000 initial_live_cache),
      effects = []\<rparr>"
proof -
  let ?good = "\<lambda>u::string. Response True 200 ''OK''
      (Some (JObj [(''bitcoin'', JObj [(''usd'', JNum 65000)])]))"
  let ?st = "\<lparr>cachedBtcData = JObj [], lastFetchTime = 1000\<rparr>"
  have h1: "live_ok ?st \<and> cachedBtcData ?st \<noteq> JNull \<and> 2000 - lastFetchTime ?st < 5 * 60 * 1000"
    by (simp add: live_ok_def)
  have h2: "5 * 60 * 1000 \<le> 300000 - lastFetchTime initial_live_cache"
    by (simp add: initial_live_cache_def)
  have h3: "status (response (btc_data ''k'' ?good 1000 initial_live_cache)) = 200 \<and>
      effects (btc_data ''k'' ?good 1000 initial_live_cache) \<noteq> [] \<and>
      (2000::int) - 1000 < 5 * 60 * 1000"
    by (simp add: btc_data_def initial_live_cache_def btc_data_try_cases res_json_def)
  have s: "JSON_stringify (cachedBtcData ?st) = JObj []"
    by simp
  show ?thesis
    using h1 h2 h3
      live_cache_window [of ?st 2000 "''k''" "\<lambda>u. Rejected"]
      live_cache_window [of initial_live_cache 300000 "''k''" "\<lambda>u. Rejected"]
      live_cache_window [of initial_live_cache 1000 "''k''" ?good 2000 "\<lambda>u. Rejected"]
    unfolding s by blast
qed

text \<open>
  C8, as amended. On a refresh the request fails exactly when the upstream call is
  rejected, its status is not a success, its body is not JSON or the body has no
  \<^verbatim>\<open>bitcoin\<close> section, and every such failure is the one answer 500
  "Failed to fetch BTC data": no separate error tells a malformed payload from a
  failed call. A payload with a \<^verbatim>\<open>bitcoin\<close> section is never an error, whichever
  currency fields it lacks: the answer is 200, and a missing field is \<^verbatim>\<open>undefined\<close> in
  the cached payload (so absent from the JSON sent).
\<close>

theorem live_refresh_outcomes:
  "\<not> (truthy (cachedBtcData st) \<and> now - lastFetchTime st < CACHE_DURATION_MS) \<longrightarrow>
     (status (response (btc_data API_KEY fetch now st)) = 500 \<longleftrightarrow>
        refresh_aborts (fetch (btc_data_url API_KEY live_currencies))) \<and>
     (refresh_aborts (fetch (btc_data_url API_KEY live_currencies)) \<longrightarrow>
        response (btc_data API_KEY fetch now st) =
          \<lparr>status = 500, body = JObj [(''error'', JStr ''Failed to fetch BTC data'')]\<rparr>) \<and>
     (\<forall>code txt data.
        fetch (btc_data_url API_KEY live_currencies) = Response True code txt (Some data) \<and>
        \<not> nullish data \<and> \<not> nullish (js_get data ''bitcoin'') \<longrightarrow>
          response (btc_data API_KEY fetch now st) =
            \<lparr>status = 200, body = JSON_stringify (live_payload (js_get data ''bitcoin''))\<rparr> \<and>
          cachedBtcData (state_after (btc_data API_KEY fetch now st)) =
            live_payload (js_get data ''bitcoin''))"
proof (intro impI)
  let ?r = "fetch (btc_data_url API_KEY live_currencies)"
  let ?out = "btc_data API_KEY fetch now st"
  assume miss: "\<not> (truthy (cachedBtcData st) \<and> now - lastFetchTime st < CACHE_DURATION_MS)"
  have ab: "refresh_aborts ?r \<Longrightarrow>
      response ?out = \<lparr>status = 500, body = JObj [(''error'', JStr ''Failed to fetch BTC data'')]\<rparr>"
    using miss btc_data_aborted [of st now fetch API_KEY]
    by (simp add: res_json_def error_body_def)
  have ok: "\<not> refresh_aborts ?r \<Longrightarrow> status (response ?out) = 200"
    using miss btc_data_refreshed [of st now fetch API_KEY] by (auto simp: res_json_def)
  have iff: "status (response ?out) = 500 \<longleftrightarrow> refresh_aborts ?r"
    using ab ok by (cases "refresh_aborts ?r") simp_all
  have run: "\<forall>code txt data.
        ?r = Response True code txt (Some data) \<and>
        \<not> nullish data \<and> \<not> nullish (js_get data ''bitcoin'') \<longrightarrow>
          response ?out =
            \<lparr>status = 200, body = JSON_stringify (live_payload (js_get data ''bitcoin''))\<rparr> \<and>
          cachedBtcData (state_after ?out) = live_payload (js_get data ''bitcoin'')"
    using miss by (auto simp: btc_data_def Let_def btc_data_try_cases res_json_def)
  from ab iff run show "(status (response ?out) = 500 \<longleftrightarrow> refresh_aborts ?r) \<and>
     (refresh_aborts ?r \<longrightarrow>
        response ?out =
          \<lparr>status = 500, body = JObj [(''error'', JStr ''Failed to fetch BTC data'')]\<rparr>) \<and>
     (\<forall>code txt data.
        ?r = Response True code txt (Some data) \<and>
        \<not> nullish data \<and> \<not> nullish (js_get data ''bitcoin'') \<longrightarrow>
          response ?out =
            \<lparr>status = 200, body = JSON_stringify (live_payload (js_get data ''bitcoin''))\<rparr> \<and>
          cachedBtcData (state_after ?out) = live_payload (js_get data ''bitcoin''))"
    by blast
qed

theorem live_refresh_outcomes_witness:
  "status (response (btc_data ''k'' (\<lambda>u. Rejected) 1000 initial_live_cache)) = 500 \<and>
   response (btc_data ''k'' (\<lambda>u. Response True 200 ''OK'' (Some (JObj []))) 1000
      initial_live_cache) =
     \<lparr>status = 500, body = JObj [(''error'', JStr ''Failed to fetch BTC data'')]\<rparr> \<and>
   response (btc_data ''k''
      (\<lambda>u. Response True 200 ''OK'' (Some (JObj [(''bitcoin'', JObj [(''usd'', JNum 65000)])])))
      1000 initial_live_cache) =
     \<lparr>status = 200,
      body = JSON_stringify (live_payload (JObj [(''usd'', JNum 65000)]))\<rparr> \<and>
   js_get (cachedBtcData (state_after (btc_data ''k''
      (\<lambda>u. Response True 200 ''OK'' (Some (JObj [(''bitcoin'', JObj [(''usd'', JNum 65000)])])))
      1000 initial_live_cache))) ''AUD'' =
     JObj [(''price'', JUndefined), (''percentChange24h'', JUndefined),
           (''marketCap'', JUndefined)]"
proof -
  have miss: "\<not> (truthy (cachedBtcData initial_live_cache) \<and>
      1000 - lastFetchTime initial_live_cache < CACHE_DURATION_MS)"
    by (simp add: initial_live_cache_def)
  show ?thesis
    using miss
      live_refresh_outcomes [of initial_live_cache 1000 "''k''" "\<lambda>u. Rejected"]
      live_refresh_outcomes [of initial_live_cache 1000 "''k''"
        "\<lambda>u. Response True 200 ''OK'' (Some (JObj []))"]
      live_refresh_outcomes [of initial_live_cache 1000 "''k''"
        "\<lambda>u. Response True 200 ''OK'' (Some (JObj [(''bitcoin'', JObj [(''usd'', JNum 65000)])]))"]
    by (simp add: live_payload_def live_entry_def)
qed

text \<open>
  The claim C8 as stated fails: the upstream payload below has no field for aud, gbp, eur
  or cad, and the request answers 200 with empty entries for them.
\<close>

theorem missing_currency_field_passes:
  "js_get (JObj [(''usd'', JNum 65000)]) ''aud'' = JUndefined \<and>
   response (btc_data ''k''
      (\<lambda>u. Response True 200 ''OK'' (Some (JObj [(''bitcoin'', JObj [(''usd'', JNum 65000)])])))
      1000 initial_live_cache) =
     \<lparr>status = 200,
      body = JObj [(''USD'', JObj [(''price'', JNum 65000)]), (''AUD'', JObj []),
                   (''GBP'', JObj []), (''EUR'', JObj []), (''CAD'', JObj [])]\<rparr>"
  by (simp add: btc_data_def initial_live_cache_def btc_data_try_cases res_json_def
        live_payload_def live_entry_def)

text \<open>
  C9. When a refresh is attempted and aborts (the call is rejected, the status is not a
  success, the body is not JSON or has no \<^verbatim>\<open>bitcoin\<close> section), the answer is 500
  "Failed to fetch BTC data", not the stale payload, and the cached payload and
  \<^verbatim>\<open>lastFetchTime\<close> are what they were. More generally every answer other than 200
  leaves the two variables unchanged.
\<close>

theorem failed_refresh_keeps_cache:
  "(\<not> (truthy (cachedBtcData st) \<and> now - lastFetchTime st < CACHE_DURATION_MS) \<and>
    refresh_aborts (fetch (btc_data_url API_KEY live_currencies)) \<longrightarrow>
      btc_data API_KEY fetch now st =
        \<lparr>response = \<lparr>status = 500, body = JObj [(''error'', JStr ''Failed to fetch BTC data'')]\<rparr>,
         state_after = st, effects = [Fetch (btc_data_url API_KEY live_currencies)]\<rparr>) \<and>
   (status (response (btc_data API_KEY fetch now st)) \<noteq> 200 \<longrightarrow>
      state_after (btc_data API_KEY fetch now st) = st \<and>
      response (btc_data API_KEY fetch now st) =
        \<lparr>status = 500, body = JObj [(''error'', JStr ''Failed to fetch BTC data'')]\<rparr>) \<and>
   refresh_aborts Rejected \<and> refresh_aborts (Response False code txt payload) \<and>
   refresh_aborts (Response True code txt None)"
proof -
  have msg: "res_json 500 (error_body ''Failed to fetch BTC data'') =
      \<lparr>status = 500, body = JObj [(''error'', JStr ''Failed to fetch BTC data'')]\<rparr>"
    by (simp add: res_json_def error_body_def)
  have a: "\<not> (truthy (cachedBtcData st) \<and> now - lastFetchTime st < CACHE_DURATION_MS) \<and>
    refresh_aborts (fetch (btc_data_url API_KEY live_currencies)) \<longrightarrow>
      btc_data API_KEY fetch now st =
        \<lparr>response = \<lparr>status = 500, body = JObj [(''error'', JStr ''Failed to fetch BTC data'')]\<rparr>,
         state_after = st, effects = [Fetch (btc_data_url API_KEY live_currencies)]\<rparr>"
    using btc_data_aborted [of st now fetch API_KEY] by (simp add: msg)
  have b: "status (response (btc_data API_KEY fetch now st)) \<noteq> 200 \<longrightarrow>
      state_after (btc_data API_KEY fetch now st) = st \<and>
      response (btc_data API_KEY fetch now st) =
        \<lparr>status = 500, body = JObj [(''error'', JStr ''Failed to fetch BTC data'')]\<rparr>"
    by (simp add: btc_data_def Let_def res_json_def error_body_def split: sum.splits)
  have c: "refresh_aborts Rejected \<and> refresh_aborts (Response False code txt payload) \<and>
      refresh_aborts (Response True code txt None)"
    by (cases payload) simp_all
  from a b c show ?thesis by blast
qed

theorem failed_refresh_keeps_cache_witness:
  "btc_data ''k'' (\<lambda>u. Response False 429 ''Too Many Requests'' None) 300000
     \<lparr>cachedBtcData = JObj [(''USD'', JObj [(''price'', JNum 65000)])], lastFetchTime = 0\<rparr> =
   \<lparr>response = \<lparr>status = 500, body = JObj [(''error'', JStr ''Failed to fetch BTC data'')]\<rparr>,
    state_after =
      \<lparr>cachedBtcData = JObj [(''USD'', JObj [(''price'', JNum 65000)])], lastFetchTime = 0\<rparr>,
    effects = [Fetch (btc_data_url ''k'' live_currencies)]\<rparr>"
proof -
  let ?st = "\<lparr>cachedBtcData = JObj [(''USD'', JObj [(''price'', JNum 65000)])], lastFetchTime = 0\<rparr>"
  have miss: "\<not> (truthy (cachedBtcData ?st) \<and> 300000 - lastFetchTime ?st < CACHE_DURATION_MS)"
    by (simp add: CACHE_DURATION_MS_def)
  have ab: "refresh_aborts (Response False 429 ''Too Many Requests'' None)"
    by simp
  show ?thesis
    using miss ab
      failed_refresh_keeps_cache [of ?st 300000 "\<lambda>u. Response False 429 ''Too Many Requests'' None" "''k''"]
    by blast
qed

section \<open>The table under the historical request\<close>

lemma find_append_last:
  "\<forall>x\<in>set xs. \<not> P x \<Longrightarrow> P r \<Longrightarrow> find P (xs @ [r]) = Some r"
  by (induction xs) auto

lemma db_select_inserted: "db_select (db_insert_or_replace db r) (row_date r) = Some r"
  by (simp add: db_select_def db_insert_or_replace_def find_append_last)

lemma find_filter_other:
  "(\<And>x. P x \<Longrightarrow> Q x) \<Longrightarrow> find P (filter Q xs) = find P xs"
  by (induction xs) auto

lemma find_append_not: "\<not> P r \<Longrightarrow> find P (xs @ [r]) = find P xs"
  by (induction xs) auto

lemma db_select_insert_other:
  "k \<noteq> row_date r \<Longrightarrow> db_select (db_insert_or_replace db r) k = db_select db k"
  by (auto simp: db_select_def db_insert_or_replace_def find_append_not intro: find_filter_other)

lemma db_select_mem: "db_select db k = Some r \<Longrightarrow> r \<in> set db \<and> row_date r = k"
  by (auto simp: db_select_def find_Some_iff)

lemma currenciesToReturn_effective: "currenciesToReturn p \<in> set effective_currency_lists"
  by (auto simp: currenciesToReturn_def isSingleCurrency_def effective_currency_lists_def
      split: option.splits)

lemma date_pattern_length: "regex_test date_pattern d \<Longrightarrow> length d = 10"
  by (auto simp: date_pattern_shape)

lemma well_formed_cacheKey:
  "regex_test date_pattern d \<Longrightarrow> well_formed_key (cacheKey d (currenciesToReturn p))"
  using currenciesToReturn_effective [of p] date_pattern_length [of d]
  by (simp add: well_formed_key_def cacheKey_def)

lemma split_at_last:
  "xs @ c # ys = xs' @ c # ys' \<Longrightarrow> c \<notin> set ys \<Longrightarrow> c \<notin> set ys' \<Longrightarrow> xs = xs'"
  by (auto simp: append_eq_append_conv2 Cons_eq_append_conv append_eq_Cons_conv)

lemma no_hyphen_in_currencies:
  "cs \<in> set effective_currency_lists \<Longrightarrow> CHR ''-'' \<notin> set (join '','' cs)"
  by (auto simp: effective_currency_lists_def supportedCurrencies_def)

text \<open>A well-formed key is the key of one date only: a request whose key is well formed
  has a date of the pattern.\<close>

lemma well_formed_key_date:
  assumes "well_formed_key (cacheKey d (currenciesToReturn p))"
  shows "regex_test date_pattern d"
proof -
  define k where "k = cacheKey d (currenciesToReturn p)"
  define d0 where "d0 = take 10 k"
  from assms have "regex_test date_pattern d0 \<and> k \<in> cacheKey d0 ` set effective_currency_lists"
    by (simp only: well_formed_key_def k_def d0_def set_map)
  then obtain cs where cs: "cs \<in> set effective_currency_lists"
    and k: "k = cacheKey d0 cs" and v: "regex_test date_pattern d0"
    by blast
  have eq: "d @ CHR ''-'' # join '','' (currenciesToReturn p) = d0 @ CHR ''-'' # join '','' cs"
    using k unfolding k_def cacheKey_def by simp
  have "d = d0"
    by (rule split_at_last [OF eq no_hyphen_in_currencies [OF currenciesToReturn_effective]
          no_hyphen_in_currencies [OF cs]])
  with v show ?thesis by simp
qed

lemma table_ok_empty: "table_ok []"
  by (simp add: table_ok_def)

lemma table_ok_save:
  "table_ok db \<Longrightarrow> well_formed_key k \<Longrightarrow> is_object v \<Longrightarrow>
   table_ok (savePriceToCache t k v db)"
  by (auto simp: table_ok_def savePriceToCache_def db_insert_or_replace_def list_all_iff
        distinct_map_filter is_object_stringify stringify_idem)

lemma table_ok_prune: "table_ok db \<Longrightarrow> table_ok (fst (prune_tick now db))"
  by (auto simp: table_ok_def prune_tick_def pruneOldCacheEntries_def db_delete_older_def
        list_all_iff distinct_map_filter Let_def)

lemma history_outcome:
  fixes API_KEY fetch now now' req cur db
  defines "d \<equiv> params_date req"
    and "k \<equiv> cacheKey (params_date req) (currenciesToReturn cur)"
    and "url \<equiv> history_url API_KEY (params_date req)"
  shows "btc_price_history_from API_KEY fetch now now' req cur db =
       \<lparr>response = res_json 400 (error_body ''Invalid date format. Use dd-mm-yyyy.''),
        state_after = db, effects = []\<rparr> \<or>
     (truthy (getPriceFromCache now db k) \<and>
      btc_price_history_from API_KEY fetch now now' req cur db =
       \<lparr>response = res_json 200 (getPriceFromCache now db k), state_after = db,
        effects = [DbSelect k]\<rparr>) \<or>
     (\<exists>code msg. code \<noteq> 200 \<and> btc_price_history_from API_KEY fetch now now' req cur db =
       \<lparr>response = res_json code (error_body msg), state_after = db,
        effects = [DbSelect k, Fetch url]\<rparr>) \<or>
     (regex_test date_pattern d \<and>
      (\<exists>prices. btc_price_history_from API_KEY fetch now now' req cur db =
       \<lparr>response = res_json 200 (JObj [(''date'', JStr d), (''prices'', JObj prices)]),
        state_after = savePriceToCache now' k
           (JObj [(''date'', JStr d), (''prices'', JObj prices)]) db,
        effects = [DbSelect k, Fetch url, DbInsert k]\<rparr>))"
proof (cases "regex_test date_pattern (params_date req)")
  case False
  then show ?thesis by (simp add: history_invalid)
next
  case valid: True
  have err: ?thesis
    if "code \<noteq> 200" and "btc_price_history_from API_KEY fetch now now' req cur db =
       \<lparr>response = res_json code (error_body msg), state_after = db,
        effects = [DbSelect k, Fetch url]\<rparr>" for code msg
    using that by blast
  have stored: ?thesis
    if "btc_price_history_from API_KEY fetch now now' req cur db =
       \<lparr>response = res_json 200 (JObj [(''date'', JStr d), (''prices'', JObj prices)]),
        state_after = savePriceToCache now' k
           (JObj [(''date'', JStr d), (''prices'', JObj prices)]) db,
        effects = [DbSelect k, Fetch url, DbInsert k]\<rparr>" for prices
    using that valid unfolding d_def by blast
  show ?thesis
  proof (cases "truthy (getPriceFromCache now db k)")
    case True
    with valid show ?thesis by (simp add: history_hit k_def)
  next
    case miss: False
    show ?thesis
    proof (cases "fetch url")
      case Rejected
      with valid miss have "btc_price_history_from API_KEY fetch now now' req cur db =
         \<lparr>response = res_json 500 (error_body ''Failed to fetch BTC price history''),
          state_after = db, effects = [DbSelect k, Fetch url]\<rparr>"
        using history_miss_failed [of req k cur now db url API_KEY fetch] by (simp add: k_def url_def)
      then show ?thesis using err [of 500] by simp
    next
      case (Response ok sc stx payload)
      show ?thesis
      proof (cases "ok \<and> payload \<noteq> None")
        case False
        then have "fetch url = Response False sc stx payload \<or> fetch url = Response True sc stx None"
          using Response by auto
        with valid miss have "btc_price_history_from API_KEY fetch now now' req cur db =
           \<lparr>response = res_json 500 (error_body ''Failed to fetch BTC price history''),
            state_after = db, effects = [DbSelect k, Fetch url]\<rparr>"
          using history_miss_failed [of req k cur now db url API_KEY fetch sc stx payload]
          by (auto simp: k_def url_def)
        then show ?thesis using err [of 500] by simp
      next
        case True
        then obtain data where data: "fetch url = Response True sc stx (Some data)"
          using Response by auto
        let ?a = "js_opt_member (js_opt_member data ''market_data'') ''current_price''"
        let ?cs = "currenciesToReturn cur"
        note paths = history_miss_data [of req ?cs cur k now db url API_KEY fetch sc stx data ?a now']
        consider "\<not> truthy ?a" | "truthy ?a" "truthy_prices ?a ?cs = []"
          | "truthy ?a" "truthy_prices ?a ?cs \<noteq> []"
          by blast
        then show ?thesis
        proof cases
          case 1
          with valid miss data paths show ?thesis
            using err [of 400 "''Price data not available for this date''"]
            by (simp add: k_def url_def)
        next
          case 2
          with valid miss data paths show ?thesis
            using err [of 400 "''No supported currencies found for this date''"]
            by (simp add: k_def url_def)
        next
          case 3
          with valid miss data paths show ?thesis
            using stored [of "truthy_prices ?a ?cs"]
            by (simp add: k_def url_def d_def)
        qed
      qed
    qed
  qed
qed

lemma table_ok_history:
  "table_ok db \<Longrightarrow> table_ok (state_after (btc_price_history_from API_KEY fetch now now' req cur db))"
  using history_outcome [of API_KEY fetch now now' req cur db]
  by (auto simp: table_ok_save well_formed_cacheKey)

lemma table_ok_row:
  "table_ok db \<Longrightarrow> db_select db k = Some r \<Longrightarrow>
   well_formed_key k \<and> is_object (row_price_data r) \<and>
   JSON_stringify (row_price_data r) = row_price_data r"
  using db_select_mem [of db k r] by (auto simp: table_ok_def list_all_iff)

lemma getPriceFromCache_fresh:
  "db_select db k = Some r \<Longrightarrow> now - row_timestamp r < oneDayMs \<Longrightarrow>
   getPriceFromCache now db k = row_price_data r"
  by (simp add: getPriceFromCache_def JSON_parse_def)

lemma history_fetched_ok:
  assumes "status (response (btc_price_history_from API_KEY fetch now now' req cur db)) = 200"
    and "upstream_calls (effects (btc_price_history_from API_KEY fetch now now' req cur db)) = 1"
    and "k = cacheKey (params_date req) (currenciesToReturn cur)"
  shows "\<exists>prices. btc_price_history_from API_KEY fetch now now' req cur db =
     \<lparr>response = res_json 200 (JObj [(''date'', JStr (params_date req)), (''prices'', JObj prices)]),
      state_after = savePriceToCache now' k
         (JObj [(''date'', JStr (params_date req)), (''prices'', JObj prices)]) db,
      effects = [DbSelect k, Fetch (history_url API_KEY (params_date req)), DbInsert k]\<rparr>"
  using assms history_outcome [of API_KEY fetch now now' req cur db]
  by (auto simp: res_json_def upstream_calls_def)

lemma history_stored:
  assumes "DbInsert k' \<in> set (effects (btc_price_history_from API_KEY fetch now now' req cur db))"
    and "k = cacheKey (params_date req) (currenciesToReturn cur)"
  shows "k' = k \<and> (\<exists>prices. btc_price_history_from API_KEY fetch now now' req cur db =
     \<lparr>response = res_json 200 (JObj [(''date'', JStr (params_date req)), (''prices'', JObj prices)]),
      state_after = savePriceToCache now' k
         (JObj [(''date'', JStr (params_date req)), (''prices'', JObj prices)]) db,
      effects = [DbSelect k, Fetch (history_url API_KEY (params_date req)), DbInsert k]\<rparr>)"
  using assms history_outcome [of API_KEY fetch now now' req cur db]
  by auto

lemma history_db_effects:
  assumes "e \<in> set (effects (btc_price_history_from API_KEY fetch now now' req cur db))"
    and "is_db e"
    and "k = cacheKey (params_date req) (currenciesToReturn cur)"
  shows "e = DbSelect k \<or> e = DbInsert k"
  using assms history_outcome [of API_KEY fetch now now' req cur db]
  by auto

lemma example_date: "regex_test date_pattern ''19-05-2025''"
  by (simp add: date_pattern_unfold is_digit_def)

section \<open>The historical cache, after the currency statement\<close>

lemma cache_hit_after_currency:
  fixes req :: request and cur :: "string option" and db :: cache_table and API_KEY :: string
    and fetch1 fetch2 :: "string \<Rightarrow> fetch_result" and t1 t1' t2 t2' :: int
  defines "k \<equiv> cacheKey (params_date req) (currenciesToReturn cur)"
  defines "first \<equiv> btc_price_history_from API_KEY fetch1 t1 t1' req cur db"
  defines "second \<equiv> btc_price_history_from API_KEY fetch2 t2 t2' req cur (state_after first)"
  shows
  "(table_ok db \<and> db_select db k = Some r \<and> now - row_timestamp r < 24 * 60 * 60 * 1000 \<longrightarrow>
      btc_price_history_from API_KEY fetch now now' req cur db =
        \<lparr>response = \<lparr>status = 200, body = row_price_data r\<rparr>, state_after = db,
         effects = [DbSelect k]\<rparr>) \<and>
   (status (response first) = 200 \<and> upstream_calls (effects first) = 1 \<and>
    t2 - t1' < 24 * 60 * 60 * 1000 \<longrightarrow>
      response second = response first \<and>
      upstream_calls (effects first @ effects second) = 1 \<and>
      state_after second = state_after first)"
proof (intro conjI impI)
  assume h: "table_ok db \<and> db_select db k = Some r \<and> now - row_timestamp r < 24 * 60 * 60 * 1000"
  then have got: "getPriceFromCache now db k = row_price_data r"
    by (simp add: getPriceFromCache_fresh oneDayMs_def)
  have row: "is_object (row_price_data r) \<and> JSON_stringify (row_price_data r) = row_price_data r"
    and wf: "well_formed_key k"
    using h table_ok_row [of db k r] by simp_all
  have valid: "regex_test date_pattern (params_date req)"
    using wf well_formed_key_date unfolding k_def by blast
  have t: "truthy (getPriceFromCache now db k)"
    by (simp add: got row is_object_truthy)
  have "btc_price_history_from API_KEY fetch now now' req cur db =
      \<lparr>response = res_json 200 (getPriceFromCache now db k), state_after = db,
       effects = [DbSelect k]\<rparr>"
    using valid t history_hit [of req k cur now db API_KEY fetch now'] by (simp add: k_def)
  then show "btc_price_history_from API_KEY fetch now now' req cur db =
        \<lparr>response = \<lparr>status = 200, body = row_price_data r\<rparr>, state_after = db,
         effects = [DbSelect k]\<rparr>"
    by (simp add: got res_json_def row)
next
  assume h: "status (response first) = 200 \<and> upstream_calls (effects first) = 1 \<and>
    t2 - t1' < 24 * 60 * 60 * 1000"
  let ?url = "history_url API_KEY (params_date req)"
  from h obtain prices where
    first: "first = \<lparr>response = res_json 200
               (JObj [(''date'', JStr (params_date req)), (''prices'', JObj prices)]),
             state_after = savePriceToCache t1' k
               (JObj [(''date'', JStr (params_date req)), (''prices'', JObj prices)]) db,
             effects = [DbSelect k, Fetch ?url, DbInsert k]\<rparr>"
    using history_fetched_ok [of API_KEY fetch1 t1 t1' req cur db k]
    unfolding first_def k_def by blast
  let ?result = "JObj [(''date'', JStr (params_date req)), (''prices'', JObj prices)]"
  have valid: "regex_test date_pattern (params_date req)"
  proof (rule ccontr)
    assume "\<not> regex_test date_pattern (params_date req)"
    then have "status (response first) = 400"
      unfolding first_def by (simp add: history_invalid res_json_def)
    with h show False by simp
  qed
  have sel: "db_select (state_after first) k =
      Some \<lparr>row_date = k, row_price_data = JSON_stringify ?result, row_timestamp = t1'\<rparr>"
    using db_select_inserted
      [of db "\<lparr>row_date = k, row_price_data = JSON_stringify ?result, row_timestamp = t1'\<rparr>"]
    by (simp add: first savePriceToCache_def)
  have got: "getPriceFromCache t2 (state_after first) k = JSON_stringify ?result"
    using h getPriceFromCache_fresh [OF sel, of t2] by (simp add: oneDayMs_def)
  have obj: "truthy (JSON_stringify ?result)"
    by simp
  have second: "second = \<lparr>response = res_json 200 (JSON_stringify ?result),
      state_after = state_after first, effects = [DbSelect k]\<rparr>"
    using valid obj history_hit [of req k cur t2 "state_after first" API_KEY fetch2 t2']
    unfolding second_def got by (simp add: k_def)
  have same: "res_json 200 (JSON_stringify ?result) = res_json 200 ?result"
    unfolding res_json_def stringify_idem ..
  have "response second = res_json 200 (JSON_stringify ?result)"
    by (simp add: second)
  also have "\<dots> = res_json 200 ?result"
    by (rule same)
  also have "\<dots> = response first"
    by (simp add: first)
  finally show "response second = response first" .
  show "upstream_calls (effects first @ effects second) = 1"
    by (simp add: second first upstream_calls_def)
  show "state_after second = state_after first"
    by (simp add: second)
qed

section \<open>The composite key, after the currency statement\<close>

lemma currenciesToReturn_usd_eur:
  "currenciesToReturn (Some ''usd'') = [''usd'']" "currenciesToReturn (Some ''eur'') = [''eur'']"
  by (simp_all add: currenciesToReturn_def isSingleCurrency_def supportedCurrencies_def)

lemma key_entries_after_currency:
  fixes d API_KEY :: string and fetch1 fetch2 :: "string \<Rightarrow> fetch_result"
    and t1 t1' t2 t2' :: int and db :: cache_table and req1 req2 :: request
  defines "first \<equiv> btc_price_history_from API_KEY fetch1 t1 t1' req1 (Some ''usd'') db"
  defines "second \<equiv> btc_price_history_from API_KEY fetch2 t2 t2' req2 (Some ''eur'')
      (state_after first)"
  shows
  "(\<forall>e\<in>set (effects (btc_price_history_from API_KEY fetch now now' req cur db')). is_db e \<longrightarrow>
      e = DbSelect (params_date req @ ''-'' @
                    join '','' (currenciesToReturn cur)) \<or>
      e = DbInsert (params_date req @ ''-'' @
                    join '','' (currenciesToReturn cur))) \<and>
   (params_date req1 = d \<and> params_date req2 = d \<and>
    DbInsert k1 \<in> set (effects first) \<and> DbInsert k2 \<in> set (effects second) \<longrightarrow>
      k1 = d @ ''-usd'' \<and> k2 = d @ ''-eur'' \<and> k1 \<noteq> k2 \<and>
      state_after second =
        filter (\<lambda>q. row_date q \<noteq> k2) (filter (\<lambda>q. row_date q \<noteq> k1) db) @
        [\<lparr>row_date = k1, row_price_data = body (response first), row_timestamp = t1'\<rparr>,
         \<lparr>row_date = k2, row_price_data = body (response second), row_timestamp = t2'\<rparr>])"
proof (intro conjI impI ballI)
  fix e
  assume "e \<in> set (effects (btc_price_history_from API_KEY fetch now now' req cur db'))" and "is_db e"
  then show "e = DbSelect (params_date req @ ''-'' @
                    join '','' (currenciesToReturn cur)) \<or>
      e = DbInsert (params_date req @ ''-'' @
                    join '','' (currenciesToReturn cur))"
    using history_db_effects [of e API_KEY fetch now now' req cur db']
    by (simp add: cacheKey_def)
next
  assume h: "params_date req1 = d \<and> params_date req2 = d \<and>
    DbInsert k1 \<in> set (effects first) \<and> DbInsert k2 \<in> set (effects second)"
  have ku: "cacheKey (params_date req1) (currenciesToReturn (Some ''usd'')) = d @ ''-usd''"
    using h by (simp add: currenciesToReturn_usd_eur cacheKey_def)
  have ke: "cacheKey (params_date req2) (currenciesToReturn (Some ''eur'')) = d @ ''-eur''"
    using h by (simp add: currenciesToReturn_usd_eur cacheKey_def)
  from h history_stored [of k1 API_KEY fetch1 t1 t1' req1 "Some ''usd''" db "d @ ''-usd''"]
  obtain p1 where k1: "k1 = d @ ''-usd''" and
    first: "first = \<lparr>response = res_json 200 (JObj [(''date'', JStr d), (''prices'', JObj p1)]),
      state_after = savePriceToCache t1' (d @ ''-usd'')
         (JObj [(''date'', JStr d), (''prices'', JObj p1)]) db,
      effects = [DbSelect (d @ ''-usd''), Fetch (history_url API_KEY d), DbInsert (d @ ''-usd'')]\<rparr>"
    unfolding first_def ku by auto
  from h history_stored [of k2 API_KEY fetch2 t2 t2' req2 "Some ''eur''" "state_after first"
      "d @ ''-eur''"]
  obtain p2 where k2: "k2 = d @ ''-eur''" and
    second: "second = \<lparr>response = res_json 200 (JObj [(''date'', JStr d), (''prices'', JObj p2)]),
      state_after = savePriceToCache t2' (d @ ''-eur'')
         (JObj [(''date'', JStr d), (''prices'', JObj p2)]) (state_after first),
      effects = [DbSelect (d @ ''-eur''), Fetch (history_url API_KEY d), DbInsert (d @ ''-eur'')]\<rparr>"
    unfolding second_def ke by auto
  show "k1 = d @ ''-usd''" by (rule k1)
  show "k2 = d @ ''-eur''" by (rule k2)
  show "k1 \<noteq> k2" by (simp add: k1 k2)
  show "state_after second =
        filter (\<lambda>q. row_date q \<noteq> k2) (filter (\<lambda>q. row_date q \<noteq> k1) db) @
        [\<lparr>row_date = k1, row_price_data = body (response first), row_timestamp = t1'\<rparr>,
         \<lparr>row_date = k2, row_price_data = body (response second), row_timestamp = t2'\<rparr>]"
    unfolding second first k1 k2
    by (simp add: savePriceToCache_def db_insert_or_replace_def res_json_def)
qed

section \<open>The filtered prices, after the currency statement\<close>

lemma truthy_prices_empty:
  "truthy_prices a cs = [] \<longleftrightarrow> (\<forall>c\<in>set cs. \<not> truthy (js_get a c))"
  by (simp add: truthy_prices_def filter_empty_conv)

lemma stringify_truthy_prices:
  "JSON_stringify (JObj (truthy_prices a cs)) =
     JObj (map (\<lambda>c. (c, JSON_stringify (js_get a c))) (filter (\<lambda>c. truthy (js_get a c)) cs))"
proof -
  have "filter (\<lambda>kv. snd kv \<noteq> JUndefined) (map (map_prod id JSON_stringify) (truthy_prices a cs)) =
      map (\<lambda>c. (c, JSON_stringify (js_get a c))) (filter (\<lambda>c. truthy (js_get a c)) cs)"
    unfolding truthy_prices_def
    by (induction cs) (auto simp: stringify_undef_iff)
  then show ?thesis by simp
qed

lemma example_miss: "\<not> truthy (getPriceFromCache now [] k)"
  by (simp add: getPriceFromCache_def db_select_def)

lemma no_data_after_currency:
  fixes req :: request and cur :: "string option" and db :: cache_table and API_KEY :: string
    and fetch :: "string \<Rightarrow> fetch_result" and now now' :: int and data :: jsval
  defines "cs \<equiv> currenciesToReturn cur"
  defines "k \<equiv> cacheKey (params_date req) cs"
  defines "url \<equiv> history_url API_KEY (params_date req)"
  defines "a \<equiv> js_opt_member (js_opt_member data ''market_data'') ''current_price''"
  defines "result \<equiv> JObj [(''date'', JStr (params_date req)), (''prices'', JObj (truthy_prices a cs))]"
  defines "out \<equiv> btc_price_history_from API_KEY fetch now now' req cur db"
  shows
  "regex_test date_pattern (params_date req) \<and> \<not> truthy (getPriceFromCache now db k) \<and>
   fetch url = Response True code stx (Some data) \<longrightarrow>
     (status (response out) = 400 \<longleftrightarrow>
        (\<not> truthy a \<or> (\<forall>c\<in>set cs. \<not> truthy (js_get a c)))) \<and>
     (status (response out) = 400 \<longrightarrow> state_after out = db \<and> DbInsert k \<notin> set (effects out)) \<and>
     (status (response out) \<noteq> 400 \<longrightarrow>
        out = \<lparr>response = res_json 200 result,
               state_after = savePriceToCache now' k result db,
               effects = [DbSelect k, Fetch url, DbInsert k]\<rparr> \<and>
        db_select (state_after out) k =
          Some \<lparr>row_date = k, row_price_data = body (response out), row_timestamp = now'\<rparr>)"
proof (intro impI)
  assume h: "regex_test date_pattern (params_date req) \<and> \<not> truthy (getPriceFromCache now db k) \<and>
    fetch url = Response True code stx (Some data)"
  note paths = history_miss_data [of req cs cur k now db url API_KEY fetch code stx data a now']
  have out: "out =
     (if \<not> truthy a
      then \<lparr>response = res_json 400 (error_body ''Price data not available for this date''),
            state_after = db, effects = [DbSelect k, Fetch url]\<rparr>
      else if truthy_prices a cs = []
      then \<lparr>response = res_json 400 (error_body ''No supported currencies found for this date''),
            state_after = db, effects = [DbSelect k, Fetch url]\<rparr>
      else \<lparr>response = res_json 200 result,
            state_after = savePriceToCache now' k result db,
            effects = [DbSelect k, Fetch url, DbInsert k]\<rparr>)"
    using h paths unfolding out_def result_def
    by (simp add: cs_def k_def url_def a_def)
  have sel: "db_select (savePriceToCache now' k result db) k =
      Some \<lparr>row_date = k, row_price_data = JSON_stringify result, row_timestamp = now'\<rparr>"
    using db_select_inserted
      [of db "\<lparr>row_date = k, row_price_data = JSON_stringify result, row_timestamp = now'\<rparr>"]
    by (simp add: savePriceToCache_def)
  consider "\<not> truthy a" | "truthy a" "truthy_prices a cs = []"
    | "truthy a" "truthy_prices a cs \<noteq> []"
    by blast
  then show "(status (response out) = 400 \<longleftrightarrow>
        (\<not> truthy a \<or> (\<forall>c\<in>set cs. \<not> truthy (js_get a c)))) \<and>
     (status (response out) = 400 \<longrightarrow> state_after out = db \<and> DbInsert k \<notin> set (effects out)) \<and>
     (status (response out) \<noteq> 400 \<longrightarrow>
        out = \<lparr>response = res_json 200 result,
               state_after = savePriceToCache now' k result db,
               effects = [DbSelect k, Fetch url, DbInsert k]\<rparr> \<and>
        db_select (state_after out) k =
          Some \<lparr>row_date = k, row_price_data = body (response out), row_timestamp = now'\<rparr>)"
  proof cases
    case 1
    then show ?thesis by (simp add: out res_json_def)
  next
    case 2
    then show ?thesis
      using truthy_prices_empty [of a cs] by (simp add: out res_json_def)
  next
    case 3
    then have o: "out = \<lparr>response = res_json 200 result,
               state_after = savePriceToCache now' k result db,
               effects = [DbSelect k, Fetch url, DbInsert k]\<rparr>"
      by (simp add: out)
    have s: "status (response out) = 200" and b: "body (response out) = JSON_stringify result"
      and st: "state_after out = savePriceToCache now' k result db"
      by (simp_all add: o res_json_def)
    show ?thesis
      using 3 truthy_prices_empty [of a cs] o
      unfolding s b st sel by simp
  qed
qed

lemma omitted_after_currency:
  fixes req :: request and cur :: "string option" and db :: cache_table and API_KEY :: string
    and fetch :: "string \<Rightarrow> fetch_result" and now now' :: int and data :: jsval
  defines "cs \<equiv> currenciesToReturn cur"
  defines "k \<equiv> cacheKey (params_date req) cs"
  defines "url \<equiv> history_url API_KEY (params_date req)"
  defines "a \<equiv> js_opt_member (js_opt_member data ''market_data'') ''current_price''"
  defines "out \<equiv> btc_price_history_from API_KEY fetch now now' req cur db"
  shows
  "regex_test date_pattern (params_date req) \<and> \<not> truthy (getPriceFromCache now db k) \<and>
   fetch url = Response True code stx (Some data) \<and> truthy a \<longrightarrow>
     ((\<exists>c\<in>set cs. truthy (js_get a c)) \<longrightarrow>
        response out =
          \<lparr>status = 200,
           body = JObj [(''date'', JStr (params_date req)),
                        (''prices'',
                         JObj (map (\<lambda>c. (c, JSON_stringify (js_get a c)))
                                 (filter (\<lambda>c. truthy (js_get a c)) cs)))]\<rparr>) \<and>
     (\<forall>c. js_get a c = JNum 0 \<or> js_get a c = JNull \<longrightarrow>
        c \<notin> set (filter (\<lambda>c. truthy (js_get a c)) cs)) \<and>
     ((\<forall>c\<in>set cs. \<not> truthy (js_get a c)) \<longrightarrow>
        out = \<lparr>response =
                 \<lparr>status = 400,
                  body = JObj [(''error'', JStr ''No supported currencies found for this date'')]\<rparr>,
               state_after = db, effects = [DbSelect k, Fetch url]\<rparr>)"
proof (intro impI)
  assume h: "regex_test date_pattern (params_date req) \<and> \<not> truthy (getPriceFromCache now db k) \<and>
    fetch url = Response True code stx (Some data) \<and> truthy a"
  note paths = history_miss_data [of req cs cur k now db url API_KEY fetch code stx data a now']
  have out: "out =
     (if truthy_prices a cs = []
      then \<lparr>response = res_json 400 (error_body ''No supported currencies found for this date''),
            state_after = db, effects = [DbSelect k, Fetch url]\<rparr>
      else \<lparr>response = res_json 200 (JObj [(''date'', JStr (params_date req)),
                                           (''prices'', JObj (truthy_prices a cs))]),
            state_after = savePriceToCache now' k
               (JObj [(''date'', JStr (params_date req)), (''prices'', JObj (truthy_prices a cs))]) db,
            effects = [DbSelect k, Fetch url, DbInsert k]\<rparr>)"
    using h paths unfolding out_def
    by (simp add: cs_def k_def url_def a_def)
  have some: "(\<exists>c\<in>set cs. truthy (js_get a c)) \<longrightarrow>
        response out =
          \<lparr>status = 200,
           body = JObj [(''date'', JStr (params_date req)),
                        (''prices'',
                         JObj (map (\<lambda>c. (c, JSON_stringify (js_get a c)))
                                 (filter (\<lambda>c. truthy (js_get a c)) cs)))]\<rparr>"
  proof
    assume "\<exists>c\<in>set cs. truthy (js_get a c)"
    then have ne: "truthy_prices a cs \<noteq> []"
      by (simp add: truthy_prices_empty)
    have "JSON_stringify (JObj [(''date'', JStr (params_date req)),
                                (''prices'', JObj (truthy_prices a cs))]) =
        JObj [(''date'', JStr (params_date req)),
              (''prices'', JSON_stringify (JObj (truthy_prices a cs)))]"
      by (simp add: stringify_undef_iff)
    then show "response out =
          \<lparr>status = 200,
           body = JObj [(''date'', JStr (params_date req)),
                        (''prices'',
                         JObj (map (\<lambda>c. (c, JSON_stringify (js_get a c)))
                                 (filter (\<lambda>c. truthy (js_get a c)) cs)))]\<rparr>"
      using ne by (simp only: out res_json_def stringify_truthy_prices if_False outcome.simps)
  qed
  have zero: "\<forall>c. js_get a c = JNum 0 \<or> js_get a c = JNull \<longrightarrow>
        c \<notin> set (filter (\<lambda>c. truthy (js_get a c)) cs)"
    by auto
  have none: "(\<forall>c\<in>set cs. \<not> truthy (js_get a c)) \<longrightarrow>
        out = \<lparr>response =
                 \<lparr>status = 400,
                  body = JObj [(''error'', JStr ''No supported currencies found for this date'')]\<rparr>,
               state_after = db, effects = [DbSelect k, Fetch url]\<rparr>"
    using truthy_prices_empty [of a cs] by (simp add: out res_json_def error_body_def)
  from some zero none show "((\<exists>c\<in>set cs. truthy (js_get a c)) \<longrightarrow>
        response out =
          \<lparr>status = 200,
           body = JObj [(''date'', JStr (params_date req)),
                        (''prices'',
                         JObj (map (\<lambda>c. (c, JSON_stringify (js_get a c)))
                                 (filter (\<lambda>c. truthy (js_get a c)) cs)))]\<rparr>) \<and>
     (\<forall>c. js_get a c = JNum 0 \<or> js_get a c = JNull \<longrightarrow>
        c \<notin> set (filter (\<lambda>c. truthy (js_get a c)) cs)) \<and>
     ((\<forall>c\<in>set cs. \<not> truthy (js_get a c)) \<longrightarrow>
        out = \<lparr>response =
                 \<lparr>status = 400,
                  body = JObj [(''error'', JStr ''No supported currencies found for this date'')]\<rparr>,
               state_after = db, effects = [DbSelect k, Fetch url]\<rparr>)"
    by blast
qed

section \<open>The statement before the date test\<close>

text \<open>
  What \<^verbatim>\<open>req.query.currency?.toString().toLowerCase()\<close> gives on the values of the
  parameter, and what the handler as a whole is in terms of the part that follows that
  statement. The only thing the statement can throw is a TypeError, and then the handler
  has done nothing else.
\<close>

lemma currencyParam_None: "currencyParam None = Inr None"
  by (simp add: currencyParam_def)

lemma currencyParam_QString: "currencyParam (Some (QString s)) = Inr (Some (toLowerCase s))"
  by (simp add: currencyParam_def)

lemma toLowerCase_usd_eur:
  "toLowerCase ''usd'' = ''usd''" "toLowerCase ''eur'' = ''eur''" "toLowerCase ''UsD'' = ''usd''"
  by (simp_all add: toLowerCase_def upper_letters_def lower_letters_def)

lemma example_usd: "currencyParam (Some (QString ''usd'')) = Inr (Some ''usd'')"
  by (simp add: currencyParam_QString toLowerCase_usd_eur)

lemma example_eur: "currencyParam (Some (QString ''eur'')) = Inr (Some ''eur'')"
  by (simp add: currencyParam_QString toLowerCase_usd_eur)

lemma sequence_results_Inl:
  "sequence_results rs = Inl e \<Longrightarrow> Inl e \<in> set rs"
  by (induction rs rule: sequence_results.induct) (auto split: sum.splits)

lemma qv_toString_thrown: "qv_toString v = Inl e \<Longrightarrow> e = TypeError"
proof (induction v)
  case (QString s)
  then show ?case by simp
next
  case (QArray xs)
  from QArray.prems have "sequence_results (map qv_toString xs) = Inl e"
    by (simp split: sum.splits)
  then have "Inl e \<in> set (map qv_toString xs)"
    by (rule sequence_results_Inl)
  then obtain x where "x \<in> set xs" "qv_toString x = Inl e"
    by auto
  then show ?case
    by (rule QArray.IH)
next
  case (QObject kvs)
  then show ?case by (simp split: if_splits)
qed

lemma currency_toString_thrown:
  "currencyParam q = Inl e \<Longrightarrow> e = TypeError"
  using qv_toString_thrown by (auto simp: currencyParam_def split: option.splits sum.splits)

lemma history_returns:
  "currencyParam (query_currency req) = Inr cur \<Longrightarrow>
   btc_price_history API_KEY fetch now now' req db =
     Inr (btc_price_history_from API_KEY fetch now now' req cur db)"
  by (simp add: btc_price_history_def)

lemma history_throws:
  "currencyParam (query_currency req) = Inl e \<Longrightarrow>
   btc_price_history API_KEY fetch now now' req db = Inl e"
  by (simp add: btc_price_history_def)

lemma history_returned:
  "btc_price_history API_KEY fetch now now' req db = Inr out \<Longrightarrow>
   \<exists>cur. currencyParam (query_currency req) = Inr cur \<and>
     out = btc_price_history_from API_KEY fetch now now' req cur db"
  by (auto simp: btc_price_history_def split: sum.splits)

lemma history_thrown:
  "btc_price_history API_KEY fetch now now' req db = Inl e \<Longrightarrow> e = TypeError"
  using currency_toString_thrown [of "query_currency req" e]
  by (auto simp: btc_price_history_def split: sum.splits)

lemma table_ok_history_returned:
  "btc_price_history API_KEY fetch now now' req db = Inr out \<Longrightarrow> table_ok db \<Longrightarrow>
   table_ok (state_after out)"
  using history_returned [of API_KEY fetch now now' req db out]
    table_ok_history by blast

lemma currencyParam_recognised:
  "c \<in> set supportedCurrencies \<Longrightarrow>
   currencyParam (Some (QString (toUpperCase c))) = Inr (Some c) \<and>
   currencyParam (Some (QString c)) = Inr (Some c)"
  by (auto simp: supportedCurrencies_def currencyParam_def toUpperCase_def toLowerCase_def
        upper_letters_def lower_letters_def)

lemma date_validation_when_returned:
  "currencyParam (query_currency req) = Inr cur \<Longrightarrow>
   (regex_test date_pattern d \<longleftrightarrow>
      (\<exists>a b c e f g h i. d = [a, b, CHR ''-'', c, e, CHR ''-'', f, g, h, i] \<and>
         is_digit a \<and> is_digit b \<and> is_digit c \<and> is_digit e \<and>
         is_digit f \<and> is_digit g \<and> is_digit h \<and> is_digit i)) \<and>
   (\<exists>out. btc_price_history API_KEY fetch now now' req db = Inr out \<and>
      (regex_test date_pattern (params_date req) \<longrightarrow>
         (\<exists>es. effects out =
            DbSelect (cacheKey (params_date req) (currenciesToReturn cur)) # es) \<and>
         response out \<noteq>
           \<lparr>status = 400,
            body = JObj [(''error'', JStr ''Invalid date format. Use dd-mm-yyyy.'')]\<rparr>) \<and>
      (\<not> regex_test date_pattern (params_date req) \<longrightarrow>
         out = \<lparr>response =
             \<lparr>status = 400,
              body = JObj [(''error'', JStr ''Invalid date format. Use dd-mm-yyyy.'')]\<rparr>,
            state_after = db, effects = []\<rparr>))"
  using date_test_after_currency [of d req API_KEY fetch now now' cur db]
    history_returns [of req cur API_KEY fetch now now' db]
  by blast

lemma effective_currencies_when_returned:
  "supportedCurrencies = [''usd'', ''aud'', ''cad'', ''eur'', ''gbp''] \<and>
   (\<forall>c\<in>set supportedCurrencies.
      currencyParam (Some (QString (toUpperCase c))) = Inr (Some c) \<and>
      currencyParam (Some (QString c)) = Inr (Some c) \<and>
      currenciesToReturn (Some c) = [c]) \<and>
   currencyParam None = Inr None \<and> currenciesToReturn None = supportedCurrencies \<and>
   (currencyParam q = Inr cur \<and> cur \<notin> Some ` set supportedCurrencies \<longrightarrow>
      currenciesToReturn cur = supportedCurrencies \<and>
      btc_price_history API_KEY fetch now now' \<lparr>params_date = d, query_currency = q\<rparr> db =
      btc_price_history API_KEY fetch now now' \<lparr>params_date = d, query_currency = None\<rparr> db)"
proof -
  have none: "currenciesToReturn None = supportedCurrencies"
    by (simp add: currenciesToReturn_def)
  have other: "currenciesToReturn cur = supportedCurrencies \<and>
      btc_price_history API_KEY fetch now now' \<lparr>params_date = d, query_currency = q\<rparr> db =
      btc_price_history API_KEY fetch now now' \<lparr>params_date = d, query_currency = None\<rparr> db"
    if h: "currencyParam q = Inr cur" "cur \<notin> Some ` set supportedCurrencies"
  proof -
    have cs: "currenciesToReturn cur = currenciesToReturn None"
      using currenciesToReturn_other [of cur] h none by simp
    have "btc_price_history_from API_KEY fetch now now' \<lparr>params_date = d, query_currency = q\<rparr> cur db =
        btc_price_history_from API_KEY fetch now now' \<lparr>params_date = d, query_currency = None\<rparr> None db"
      using cs by (rule history_depends_on_currencies) simp
    then show ?thesis
      using h cs none by (simp add: btc_price_history_def currencyParam_None)
  qed
  show ?thesis
    using none other currencyParam_recognised currenciesToReturn_recognised
    by (simp add: supportedCurrencies_def currencyParam_None)
qed

lemma example_first_request:
  "btc_price_history ''k''
      (\<lambda>u. Response True 200 ''OK'' (Some (JObj [(''market_data'',
         JObj [(''current_price'', JObj [(''usd'', JNum 65000), (''eur'', JNum 60000)])])])))
      1000 1500 \<lparr>params_date = ''19-05-2025'', query_currency = Some (QString ''usd'')\<rparr> [] =
   Inr \<lparr>response =
        \<lparr>status = 200,
         body = JObj [(''date'', JStr ''19-05-2025''), (''prices'', JObj [(''usd'', JNum 65000)])]\<rparr>,
      state_after =
        [\<lparr>row_date = ''19-05-2025-usd'',
          row_price_data = JObj [(''date'', JStr ''19-05-2025''),
                                 (''prices'', JObj [(''usd'', JNum 65000)])],
          row_timestamp = 1500\<rparr>],
      effects = [DbSelect ''19-05-2025-usd'',
                 Fetch (history_url ''k'' ''19-05-2025''), DbInsert ''19-05-2025-usd'']\<rparr>"
  by (simp add: btc_price_history_def example_usd btc_price_history_from_def
        btc_price_history_try_def Let_def example_date
        currenciesToReturn_usd_eur cacheKey_def getPriceFromCache_def db_select_def
        js_opt_member_def js_member_def res_json_def savePriceToCache_def
        db_insert_or_replace_def)

lemma example_second_request:
  "btc_price_history ''k''
      (\<lambda>u. Response True 200 ''OK'' (Some (JObj [(''market_data'',
         JObj [(''current_price'', JObj [(''usd'', JNum 65000), (''eur'', JNum 60000)])])])))
      2000 2500 \<lparr>params_date = ''19-05-2025'', query_currency = Some (QString ''eur'')\<rparr>
      [\<lparr>row_date = ''19-05-2025-usd'',
        row_price_data = JObj [(''date'', JStr ''19-05-2025''),
                               (''prices'', JObj [(''usd'', JNum 65000)])],
        row_timestamp = 1500\<rparr>] =
   Inr \<lparr>response =
        \<lparr>status = 200,
         body = JObj [(''date'', JStr ''19-05-2025''), (''prices'', JObj [(''eur'', JNum 60000)])]\<rparr>,
      state_after =
        [\<lparr>row_date = ''19-05-2025-usd'',
          row_price_data = JObj [(''date'', JStr ''19-05-2025''),
                                 (''prices'', JObj [(''usd'', JNum 65000)])],
          row_timestamp = 1500\<rparr>,
         \<lparr>row_date = ''19-05-2025-eur'',
          row_price_data = JObj [(''date'', JStr ''19-05-2025''),
                                 (''prices'', JObj [(''eur'', JNum 60000)])],
          row_timestamp = 2500\<rparr>],
      effects = [DbSelect ''19-05-2025-eur'',
                 Fetch (history_url ''k'' ''19-05-2025''), DbInsert ''19-05-2025-eur'']\<rparr>"
  by (simp add: btc_price_history_def example_eur btc_price_history_from_def
        btc_price_history_try_def Let_def example_date
        currenciesToReturn_usd_eur cacheKey_def getPriceFromCache_def db_select_def
        js_opt_member_def js_member_def res_json_def savePriceToCache_def
        db_insert_or_replace_def)

section \<open>A date that is not answered\<close>

text \<open>
  C4. The claim: a date matching the pattern is taken further, and any other date is
  answered 400 "Invalid date format. Use dd-mm-yyyy." before any upstream call or table
  statement. The handler tests the date and answers so, but only after the statement that
  computes \<^verbatim>\<open>currencyParam\<close>, which stands before the test and outside the \<^verbatim>\<open>try\<close>
  block whose \<^verbatim>\<open>catch\<close> answers every other error. Below, the date \<^verbatim>\<open>bad-date\<close> does not
  match the pattern; requested with \<^verbatim>\<open>currency[toString]=x\<close> the handler throws a TypeError
  and answers nothing, where the same date without the parameter is answered 400 with no
  effect. For every request on which that statement returns, the claim holds
  (\<open>date_validation_when_returned\<close>).
\<close>

theorem invalid_date_unanswered:
  "\<not> regex_test date_pattern ''bad-date'' \<and>
   btc_price_history ''k'' (\<lambda>u. Rejected) 0 0
      \<lparr>params_date = ''bad-date'',
       query_currency = Some (QObject [(''toString'', QString ''x'')])\<rparr> [] = Inl TypeError \<and>
   btc_price_history ''k'' (\<lambda>u. Rejected) 0 0
      \<lparr>params_date = ''bad-date'', query_currency = None\<rparr> [] =
     Inr \<lparr>response =
        \<lparr>status = 400, body = JObj [(''error'', JStr ''Invalid date format. Use dd-mm-yyyy.'')]\<rparr>,
      state_after = [], effects = []\<rparr>"
  by (simp add: btc_price_history_def currencyParam_def btc_price_history_from_def Let_def
        date_pattern_unfold is_digit_def res_json_def error_body_def)

text \<open>
  C5. The claim: the effective currencies are the one recognised currency of the caller,
  in any mix of cases, and the whole supported list otherwise, and the parameter never
  produces an error. The handler guards an absent parameter with \<^verbatim>\<open>?.\<close> and falls back
  to the whole list for every string that is not a supported code, but it calls
  \<^verbatim>\<open>toString\<close> on whatever the parameter is: below, the object of
  \<^verbatim>\<open>currency[toString]=x\<close>, alone or inside a repeated parameter, makes the handler throw
  a TypeError on a valid date, where an object with another key is lower-cased to
  \<^verbatim>\<open>[object object]\<close> and handled with the whole supported list (here up to the failing
  upstream call). For every parameter on which the statement returns, the claim holds
  (\<open>effective_currencies_when_returned\<close>).
\<close>

theorem currency_object_throws:
  "qv_toString (QObject [(''toString'', QString ''x'')]) = Inl TypeError \<and>
   btc_price_history ''k'' (\<lambda>u. Rejected) 0 0
      \<lparr>params_date = ''19-05-2025'',
       query_currency = Some (QObject [(''toString'', QString ''x'')])\<rparr> [] = Inl TypeError \<and>
   btc_price_history ''k'' (\<lambda>u. Rejected) 0 0
      \<lparr>params_date = ''19-05-2025'',
       query_currency = Some (QArray [QString ''usd'', QObject [(''toString'', QString ''x'')]])\<rparr> [] =
     Inl TypeError \<and>
   currencyParam (Some (QObject [(''code'', QString ''x'')])) = Inr (Some ''[object object]'') \<and>
   btc_price_history ''k'' (\<lambda>u. Rejected) 0 0
      \<lparr>params_date = ''19-05-2025'', query_currency = Some (QObject [(''code'', QString ''x'')])\<rparr> [] =
     Inr \<lparr>response = \<lparr>status = 500,
                      body = JObj [(''error'', JStr ''Failed to fetch BTC price history'')]\<rparr>,
          state_after = [],
          effects = [DbSelect ''19-05-2025-usd,aud,cad,eur,gbp'',
                     Fetch (history_url ''k'' ''19-05-2025'')]\<rparr>"
proof -
  have lc: "toLowerCase ''[object Object]'' = ''[object object]''"
    by (simp add: toLowerCase_def upper_letters_def lower_letters_def)
  have cs: "currenciesToReturn (Some ''[object object]'') = [''usd'', ''aud'', ''cad'', ''eur'', ''gbp'']"
    by (simp add: currenciesToReturn_def isSingleCurrency_def supportedCurrencies_def)
  show ?thesis
    by (simp add: btc_price_history_def currencyParam_def lc cs btc_price_history_from_def
        btc_price_history_try_def Let_def example_date cacheKey_def getPriceFromCache_def
        db_select_def res_json_def error_body_def)
qed

section \<open>The historical cache\<close>

text \<open>
  C1. A request on which the currency statement returns and whose composite key has a
  row in the table written less than 24 hours before \<open>now\<close> is answered 200 with the
  stored payload as it stands, with the lookup as its only effect (no upstream call) and
  the table unchanged; the table is one that only this server has written (\<open>table_ok\<close>,
  which holds of the empty table and is preserved by every request and every sweep). As a
  consequence, when a request was answered 200 after one upstream call and the same
  request comes again less than 24 hours after the row was written, the second request is
  answered too, the two requests together make exactly one upstream call, the second
  answer is the first answer, and the table is left as the first request left it.
\<close>

theorem historical_cache_hit:
  "(currencyParam (query_currency req) = Inr cur \<and> table_ok db \<and>
    db_select db (cacheKey (params_date req) (currenciesToReturn cur)) = Some r \<and>
    now - row_timestamp r < 24 * 60 * 60 * 1000 \<longrightarrow>
      btc_price_history API_KEY fetch now now' req db =
        Inr \<lparr>response = \<lparr>status = 200, body = row_price_data r\<rparr>, state_after = db,
             effects = [DbSelect (cacheKey (params_date req) (currenciesToReturn cur))]\<rparr>) \<and>
   (btc_price_history API_KEY fetch1 t1 t1' req db = Inr first \<and>
    status (response first) = 200 \<and> upstream_calls (effects first) = 1 \<and>
    t2 - t1' < 24 * 60 * 60 * 1000 \<longrightarrow>
      (\<exists>second. btc_price_history API_KEY fetch2 t2 t2' req (state_after first) = Inr second \<and>
         response second = response first \<and>
         upstream_calls (effects first @ effects second) = 1 \<and>
         state_after second = state_after first))"
proof (intro conjI impI)
  assume h: "currencyParam (query_currency req) = Inr cur \<and> table_ok db \<and>
    db_select db (cacheKey (params_date req) (currenciesToReturn cur)) = Some r \<and>
    now - row_timestamp r < 24 * 60 * 60 * 1000"
  then have "btc_price_history_from API_KEY fetch now now' req cur db =
        \<lparr>response = \<lparr>status = 200, body = row_price_data r\<rparr>, state_after = db,
         effects = [DbSelect (cacheKey (params_date req) (currenciesToReturn cur))]\<rparr>"
    using cache_hit_after_currency [where req = req and cur = cur and db = db and r = r
        and now = now and API_KEY = API_KEY and fetch = fetch and now' = now']
    by blast
  with h show "btc_price_history API_KEY fetch now now' req db =
        Inr \<lparr>response = \<lparr>status = 200, body = row_price_data r\<rparr>, state_after = db,
             effects = [DbSelect (cacheKey (params_date req) (currenciesToReturn cur))]\<rparr>"
    by (simp add: history_returns)
next
  assume h: "btc_price_history API_KEY fetch1 t1 t1' req db = Inr first \<and>
    status (response first) = 200 \<and> upstream_calls (effects first) = 1 \<and>
    t2 - t1' < 24 * 60 * 60 * 1000"
  then obtain cur where cur: "currencyParam (query_currency req) = Inr cur"
    and first: "first = btc_price_history_from API_KEY fetch1 t1 t1' req cur db"
    using history_returned [of API_KEY fetch1 t1 t1' req db first] by blast
  let ?second = "btc_price_history_from API_KEY fetch2 t2 t2' req cur (state_after first)"
  have "response ?second = response first \<and>
      upstream_calls (effects first @ effects ?second) = 1 \<and>
      state_after ?second = state_after first"
    using h cache_hit_after_currency [where req = req and cur = cur and db = db
        and API_KEY = API_KEY and ?fetch1.0 = fetch1 and ?t1.0 = t1 and t1' = t1'
        and ?fetch2.0 = fetch2 and ?t2.0 = t2 and t2' = t2']
    unfolding first by blast
  moreover have "btc_price_history API_KEY fetch2 t2 t2' req (state_after first) = Inr ?second"
    using cur by (rule history_returns)
  ultimately show "\<exists>second. btc_price_history API_KEY fetch2 t2 t2' req (state_after first) = Inr second \<and>
         response second = response first \<and>
         upstream_calls (effects first @ effects second) = 1 \<and>
         state_after second = state_after first"
    by blast
qed

theorem historical_cache_hit_witness:
  "btc_price_history ''k'' (\<lambda>u. Rejected) 2000 2000
     \<lparr>params_date = ''19-05-2025'', query_currency = Some (QString ''usd'')\<rparr>
     [\<lparr>row_date = ''19-05-2025-usd'',
       row_price_data = JObj [(''date'', JStr ''19-05-2025''),
                              (''prices'', JObj [(''usd'', JNum 65000)])],
       row_timestamp = 1000\<rparr>] =
   Inr \<lparr>response =
      \<lparr>status = 200,
       body = JObj [(''date'', JStr ''19-05-2025''), (''prices'', JObj [(''usd'', JNum 65000)])]\<rparr>,
    state_after =
      [\<lparr>row_date = ''19-05-2025-usd'',
        row_price_data = JObj [(''date'', JStr ''19-05-2025''),
                               (''prices'', JObj [(''usd'', JNum 65000)])],
        row_timestamp = 1000\<rparr>],
    effects = [DbSelect ''19-05-2025-usd'']\<rparr> \<and>
   (\<exists>second.
      btc_price_history ''k'' (\<lambda>u. Rejected) 2000 2500
        \<lparr>params_date = ''19-05-2025'', query_currency = Some (QString ''usd'')\<rparr>
        [\<lparr>row_date = ''19-05-2025-usd'',
          row_price_data = JObj [(''date'', JStr ''19-05-2025''),
                                 (''prices'', JObj [(''usd'', JNum 65000)])],
          row_timestamp = 1500\<rparr>] = Inr second \<and>
      response second =
        \<lparr>status = 200,
         body = JObj [(''date'', JStr ''19-05-2025''), (''prices'', JObj [(''usd'', JNum 65000)])]\<rparr> \<and>
      upstream_calls
        ([DbSelect ''19-05-2025-usd'', Fetch (history_url ''k'' ''19-05-2025''),
          DbInsert ''19-05-2025-usd''] @ effects second) = 1)"
proof -
  let ?req = "\<lparr>params_date = ''19-05-2025'', query_currency = Some (QString ''usd'')\<rparr>"
  let ?payload = "JObj [(''date'', JStr ''19-05-2025''), (''prices'', JObj [(''usd'', JNum 65000)])]"
  let ?row = "\<lparr>row_date = ''19-05-2025-usd'', row_price_data = ?payload, row_timestamp = 1000\<rparr>"
  let ?row' = "\<lparr>row_date = ''19-05-2025-usd'', row_price_data = ?payload, row_timestamp = 1500\<rparr>"
  let ?good = "\<lambda>u::string. Response True 200 ''OK'' (Some (JObj [(''market_data'',
             JObj [(''current_price'', JObj [(''usd'', JNum 65000), (''eur'', JNum 60000)])])]))"
  let ?first = "\<lparr>response = \<lparr>status = 200, body = ?payload\<rparr>, state_after = [?row'],
      effects = [DbSelect ''19-05-2025-usd'', Fetch (history_url ''k'' ''19-05-2025''),
                 DbInsert ''19-05-2025-usd'']\<rparr>"
  have cur: "currencyParam (query_currency ?req) = Inr (Some ''usd'')"
    by (simp add: example_usd)
  have k: "cacheKey (params_date ?req) (currenciesToReturn (Some ''usd'')) = ''19-05-2025-usd''"
    by (simp add: currenciesToReturn_usd_eur cacheKey_def)
  have wf: "well_formed_key ''19-05-2025-usd''"
    using example_date
    by (simp add: well_formed_key_def effective_currency_lists_def supportedCurrencies_def
          cacheKey_def)
  have h1: "table_ok [?row] \<and> db_select [?row] ''19-05-2025-usd'' = Some ?row \<and>
      2000 - row_timestamp ?row < 24 * 60 * 60 * 1000"
    using wf by (simp add: table_ok_def db_select_def)
  have p: "row_price_data ?row = ?payload"
    by simp
  have c1: "btc_price_history ''k'' (\<lambda>u. Rejected) 2000 2000 ?req [?row] =
      Inr \<lparr>response = \<lparr>status = 200, body = ?payload\<rparr>, state_after = [?row],
       effects = [DbSelect ''19-05-2025-usd'']\<rparr>"
    using cur h1
      historical_cache_hit [where req = ?req and cur = "Some ''usd''" and db = "[?row]"
        and r = ?row and now = 2000 and API_KEY = "''k''" and fetch = "\<lambda>u. Rejected"
        and now' = 2000]
    unfolding k p by blast
  have first: "btc_price_history ''k'' ?good 1000 1500 ?req [] = Inr ?first"
    by (rule example_first_request)
  have h2: "status (response ?first) = 200 \<and> upstream_calls (effects ?first) = 1 \<and>
      (2000::int) - 1500 < 24 * 60 * 60 * 1000"
    by (simp add: upstream_calls_def)
  have s: "state_after ?first = [?row']" "response ?first = \<lparr>status = 200, body = ?payload\<rparr>"
    "effects ?first = [DbSelect ''19-05-2025-usd'', Fetch (history_url ''k'' ''19-05-2025''),
                 DbInsert ''19-05-2025-usd'']"
    by simp_all
  have c2: "\<exists>second. btc_price_history ''k'' (\<lambda>u. Rejected) 2000 2500 ?req (state_after ?first) =
        Inr second \<and> response second = response ?first \<and>
        upstream_calls (effects ?first @ effects second) = 1 \<and>
        state_after second = state_after ?first"
    using first h2
      historical_cache_hit [where req = ?req and db = "[]" and API_KEY = "''k''"
        and ?fetch1.0 = ?good and ?t1.0 = 1000 and t1' = 1500 and first = ?first
        and ?fetch2.0 = "\<lambda>u. Rejected" and ?t2.0 = 2000 and t2' = 2500]
    by blast
  from c1 c2 [unfolded s] show ?thesis by blast
qed

section \<open>The composite key\<close>

text \<open>
  C6. Every statement a historical request runs on the table uses one key: the date,
  then "-", then the effective currencies joined with "," in their order. Hence, for
  one date, a request with currency usd and then a request with currency eur are both
  answered, and when both store their result they use the keys date-usd and date-eur,
  which differ, and leave two rows, each holding the answer of its own request, after
  whatever other rows the table had.
\<close>

theorem composite_key_entries:
  "(currencyParam (query_currency req) = Inr cur \<longrightarrow>
      (\<exists>out. btc_price_history API_KEY fetch now now' req db' = Inr out \<and>
         (\<forall>e\<in>set (effects out). is_db e \<longrightarrow>
            e = DbSelect (params_date req @ ''-'' @ join '','' (currenciesToReturn cur)) \<or>
            e = DbInsert (params_date req @ ''-'' @ join '','' (currenciesToReturn cur))))) \<and>
   (\<exists>first second.
      btc_price_history API_KEY fetch1 t1 t1'
        \<lparr>params_date = d, query_currency = Some (QString ''usd'')\<rparr> db = Inr first \<and>
      btc_price_history API_KEY fetch2 t2 t2'
        \<lparr>params_date = d, query_currency = Some (QString ''eur'')\<rparr> (state_after first) =
        Inr second \<and>
      (DbInsert k1 \<in> set (effects first) \<and> DbInsert k2 \<in> set (effects second) \<longrightarrow>
         k1 = d @ ''-usd'' \<and> k2 = d @ ''-eur'' \<and> k1 \<noteq> k2 \<and>
         state_after second =
           filter (\<lambda>q. row_date q \<noteq> k2) (filter (\<lambda>q. row_date q \<noteq> k1) db) @
           [\<lparr>row_date = k1, row_price_data = body (response first), row_timestamp = t1'\<rparr>,
            \<lparr>row_date = k2, row_price_data = body (response second), row_timestamp = t2'\<rparr>]))"
proof (intro conjI impI)
  assume cur: "currencyParam (query_currency req) = Inr cur"
  let ?out = "btc_price_history_from API_KEY fetch now now' req cur db'"
  have "\<forall>e\<in>set (effects ?out). is_db e \<longrightarrow>
            e = DbSelect (params_date req @ ''-'' @ join '','' (currenciesToReturn cur)) \<or>
            e = DbInsert (params_date req @ ''-'' @ join '','' (currenciesToReturn cur))"
    using key_entries_after_currency [where req = req and cur = cur and db' = db'
        and API_KEY = API_KEY and fetch = fetch and now = now and now' = now']
    by blast
  moreover have "btc_price_history API_KEY fetch now now' req db' = Inr ?out"
    using cur by (rule history_returns)
  ultimately show "\<exists>out. btc_price_history API_KEY fetch now now' req db' = Inr out \<and>
         (\<forall>e\<in>set (effects out). is_db e \<longrightarrow>
            e = DbSelect (params_date req @ ''-'' @ join '','' (currenciesToReturn cur)) \<or>
            e = DbInsert (params_date req @ ''-'' @ join '','' (currenciesToReturn cur)))"
    by blast
next
  let ?usd = "\<lparr>params_date = d, query_currency = Some (QString ''usd'')\<rparr>"
  let ?eur = "\<lparr>params_date = d, query_currency = Some (QString ''eur'')\<rparr>"
  let ?first = "btc_price_history_from API_KEY fetch1 t1 t1' ?usd (Some ''usd'') db"
  let ?second = "btc_price_history_from API_KEY fetch2 t2 t2' ?eur (Some ''eur'') (state_after ?first)"
  have r1: "btc_price_history API_KEY fetch1 t1 t1' ?usd db = Inr ?first"
    by (rule history_returns) (simp add: example_usd)
  have r2: "btc_price_history API_KEY fetch2 t2 t2' ?eur (state_after ?first) = Inr ?second"
    by (rule history_returns) (simp add: example_eur)
  have d: "params_date ?usd = d \<and> params_date ?eur = d"
    by simp
  have "DbInsert k1 \<in> set (effects ?first) \<and> DbInsert k2 \<in> set (effects ?second) \<longrightarrow>
         k1 = d @ ''-usd'' \<and> k2 = d @ ''-eur'' \<and> k1 \<noteq> k2 \<and>
         state_after ?second =
           filter (\<lambda>q. row_date q \<noteq> k2) (filter (\<lambda>q. row_date q \<noteq> k1) db) @
           [\<lparr>row_date = k1, row_price_data = body (response ?first), row_timestamp = t1'\<rparr>,
            \<lparr>row_date = k2, row_price_data = body (response ?second), row_timestamp = t2'\<rparr>]"
    using d key_entries_after_currency [where ?req1.0 = ?usd and ?req2.0 = ?eur and d = d
        and db = db and API_KEY = API_KEY and ?fetch1.0 = fetch1 and ?t1.0 = t1 and t1' = t1'
        and ?fetch2.0 = fetch2 and ?t2.0 = t2 and t2' = t2' and ?k1.0 = k1 and ?k2.0 = k2]
    by blast
  with r1 r2 show "\<exists>first second.
      btc_price_history API_KEY fetch1 t1 t1' ?usd db = Inr first \<and>
      btc_price_history API_KEY fetch2 t2 t2' ?eur (state_after first) = Inr second \<and>
      (DbInsert k1 \<in> set (effects first) \<and> DbInsert k2 \<in> set (effects second) \<longrightarrow>
         k1 = d @ ''-usd'' \<and> k2 = d @ ''-eur'' \<and> k1 \<noteq> k2 \<and>
         state_after second =
           filter (\<lambda>q. row_date q \<noteq> k2) (filter (\<lambda>q. row_date q \<noteq> k1) db) @
           [\<lparr>row_date = k1, row_price_data = body (response first), row_timestamp = t1'\<rparr>,
            \<lparr>row_date = k2, row_price_data = body (response second), row_timestamp = t2'\<rparr>])"
    by blast
qed

theorem composite_key_entries_witness:
  "(\<exists>out. btc_price_history ''k'' (\<lambda>u. Rejected) 1000 1500
        \<lparr>params_date = ''19-05-2025'', query_currency = Some (QString ''usd'')\<rparr> [] = Inr out \<and>
      (\<forall>e\<in>set (effects out). is_db e \<longrightarrow>
         e = DbSelect ''19-05-2025-usd'' \<or> e = DbInsert ''19-05-2025-usd'')) \<and>
   (\<exists>first second.
      btc_price_history ''k''
        (\<lambda>u. Response True 200 ''OK'' (Some (JObj [(''market_data'',
           JObj [(''current_price'', JObj [(''usd'', JNum 65000), (''eur'', JNum 60000)])])])))
        1000 1500 \<lparr>params_date = ''19-05-2025'', query_currency = Some (QString ''usd'')\<rparr> [] =
        Inr first \<and>
      btc_price_history ''k''
        (\<lambda>u. Response True 200 ''OK'' (Some (JObj [(''market_data'',
           JObj [(''current_price'', JObj [(''usd'', JNum 65000), (''eur'', JNum 60000)])])])))
        2000 2500 \<lparr>params_date = ''19-05-2025'', query_currency = Some (QString ''eur'')\<rparr>
        (state_after first) = Inr second \<and>
      state_after second =
        [\<lparr>row_date = ''19-05-2025-usd'',
          row_price_data = JObj [(''date'', JStr ''19-05-2025''),
                                 (''prices'', JObj [(''usd'', JNum 65000)])],
          row_timestamp = 1500\<rparr>,
         \<lparr>row_date = ''19-05-2025-eur'',
          row_price_data = JObj [(''date'', JStr ''19-05-2025''),
                                 (''prices'', JObj [(''eur'', JNum 60000)])],
          row_timestamp = 2500\<rparr>]) \<and>
   ''19-05-2025-usd'' \<noteq> ''19-05-2025-eur''"
proof -
  let ?good = "\<lambda>u::string. Response True 200 ''OK'' (Some (JObj [(''market_data'',
         JObj [(''current_price'', JObj [(''usd'', JNum 65000), (''eur'', JNum 60000)])])]))"
  let ?usd = "\<lparr>params_date = ''19-05-2025'', query_currency = Some (QString ''usd'')\<rparr>"
  let ?eur = "\<lparr>params_date = ''19-05-2025'', query_currency = Some (QString ''eur'')\<rparr>"
  let ?p1 = "JObj [(''date'', JStr ''19-05-2025''), (''prices'', JObj [(''usd'', JNum 65000)])]"
  let ?p2 = "JObj [(''date'', JStr ''19-05-2025''), (''prices'', JObj [(''eur'', JNum 60000)])]"
  let ?row1 = "\<lparr>row_date = ''19-05-2025-usd'', row_price_data = ?p1, row_timestamp = 1500\<rparr>"
  let ?row2 = "\<lparr>row_date = ''19-05-2025-eur'', row_price_data = ?p2, row_timestamp = 2500\<rparr>"
  note inst = composite_key_entries [where req = ?usd and cur = "Some ''usd''" and db' = "[]"
      and API_KEY = "''k''" and fetch = "\<lambda>u. Rejected" and now = 1000 and now' = 1500
      and d = "''19-05-2025''" and db = "[]" and ?fetch1.0 = ?good and ?t1.0 = 1000 and t1' = 1500
      and ?fetch2.0 = ?good and ?t2.0 = 2000 and t2' = 2500
      and ?k1.0 = "''19-05-2025-usd''" and ?k2.0 = "''19-05-2025-eur''"]
  have cur: "currencyParam (query_currency ?usd) = Inr (Some ''usd'')"
    by (simp add: example_usd)
  have key: "params_date ?usd @ ''-'' @ join '','' (currenciesToReturn (Some ''usd'')) =
      ''19-05-2025-usd''"
    by (simp add: currenciesToReturn_usd_eur)
  have a: "\<exists>out. btc_price_history ''k'' (\<lambda>u. Rejected) 1000 1500 ?usd [] = Inr out \<and>
      (\<forall>e\<in>set (effects out). is_db e \<longrightarrow>
         e = DbSelect ''19-05-2025-usd'' \<or> e = DbInsert ''19-05-2025-usd'')"
    using cur inst [THEN conjunct1] unfolding key by blast
  from inst [THEN conjunct2] obtain first second where
    f: "btc_price_history ''k'' ?good 1000 1500 ?usd [] = Inr first"
    and g: "btc_price_history ''k'' ?good 2000 2500 ?eur (state_after first) = Inr second"
    and c: "DbInsert ''19-05-2025-usd'' \<in> set (effects first) \<and>
        DbInsert ''19-05-2025-eur'' \<in> set (effects second) \<longrightarrow>
        state_after second =
          filter (\<lambda>q. row_date q \<noteq> ''19-05-2025-eur'')
            (filter (\<lambda>q. row_date q \<noteq> ''19-05-2025-usd'') []) @
          [\<lparr>row_date = ''19-05-2025-usd'', row_price_data = body (response first),
            row_timestamp = 1500\<rparr>,
           \<lparr>row_date = ''19-05-2025-eur'', row_price_data = body (response second),
            row_timestamp = 2500\<rparr>]"
    by blast
  have first: "first = \<lparr>response = \<lparr>status = 200, body = ?p1\<rparr>, state_after = [?row1],
      effects = [DbSelect ''19-05-2025-usd'', Fetch (history_url ''k'' ''19-05-2025''),
                 DbInsert ''19-05-2025-usd'']\<rparr>"
    using f by (simp add: example_first_request)
  have st1: "state_after first = [?row1]"
    by (simp add: first)
  have second: "second = \<lparr>response = \<lparr>status = 200, body = ?p2\<rparr>,
      state_after = [?row1, ?row2],
      effects = [DbSelect ''19-05-2025-eur'', Fetch (history_url ''k'' ''19-05-2025''),
                 DbInsert ''19-05-2025-eur'']\<rparr>"
    using g unfolding st1 by (simp add: example_second_request)
  have h: "DbInsert ''19-05-2025-usd'' \<in> set (effects first) \<and>
      DbInsert ''19-05-2025-eur'' \<in> set (effects second)"
    by (simp add: first second)
  from c h have "state_after second =
          filter (\<lambda>q. row_date q \<noteq> ''19-05-2025-eur'')
            (filter (\<lambda>q. row_date q \<noteq> ''19-05-2025-usd'') []) @
          [\<lparr>row_date = ''19-05-2025-usd'', row_price_data = body (response first),
            row_timestamp = 1500\<rparr>,
           \<lparr>row_date = ''19-05-2025-eur'', row_price_data = body (response second),
            row_timestamp = 2500\<rparr>]"
    by blast
  then have "state_after second = [?row1, ?row2]"
    by (simp add: first second)
  with f g have b: "\<exists>first second.
      btc_price_history ''k'' ?good 1000 1500 ?usd [] = Inr first \<and>
      btc_price_history ''k'' ?good 2000 2500 ?eur (state_after first) = Inr second \<and>
      state_after second = [?row1, ?row2]"
    by blast
  have ne: "''19-05-2025-usd'' \<noteq> ''19-05-2025-eur''"
    by simp
  from a b ne show ?thesis by blast
qed

section \<open>No data for the date\<close>

text \<open>
  C7, as amended. On a miss with a successful upstream response whose body is JSON, the
  request is answered, and answered 400 exactly when the price-data section
  (\<^verbatim>\<open>market_data.current_price\<close>) is absent or falsy, or no effective currency has a
  truthy price in it; the table is then unchanged. Otherwise the result, the date with the
  effective currencies whose price is truthy, is answered 200 and is what the row under
  the composite key holds afterwards, written at the time of the save.
\<close>

theorem no_data_exactly_when:
  fixes req :: request and cur :: "string option" and db :: cache_table and API_KEY :: string
    and fetch :: "string \<Rightarrow> fetch_result" and now now' :: int and data :: jsval
  defines "cs \<equiv> currenciesToReturn cur"
  defines "k \<equiv> cacheKey (params_date req) cs"
  defines "url \<equiv> history_url API_KEY (params_date req)"
  defines "a \<equiv> js_opt_member (js_opt_member data ''market_data'') ''current_price''"
  defines "result \<equiv> JObj [(''date'', JStr (params_date req)), (''prices'', JObj (truthy_prices a cs))]"
  shows
  "currencyParam (query_currency req) = Inr cur \<and>
   regex_test date_pattern (params_date req) \<and> \<not> truthy (getPriceFromCache now db k) \<and>
   fetch url = Response True code stx (Some data) \<longrightarrow>
     (\<exists>out. btc_price_history API_KEY fetch now now' req db = Inr out \<and>
        (status (response out) = 400 \<longleftrightarrow>
           (\<not> truthy a \<or> (\<forall>c\<in>set cs. \<not> truthy (js_get a c)))) \<and>
        (status (response out) = 400 \<longrightarrow>
           state_after out = db \<and> DbInsert k \<notin> set (effects out)) \<and>
        (status (response out) \<noteq> 400 \<longrightarrow>
           out = \<lparr>response = res_json 200 result,
                  state_after = savePriceToCache now' k result db,
                  effects = [DbSelect k, Fetch url, DbInsert k]\<rparr> \<and>
           db_select (state_after out) k =
             Some \<lparr>row_date = k, row_price_data = body (response out), row_timestamp = now'\<rparr>))"
proof (intro impI)
  assume h: "currencyParam (query_currency req) = Inr cur \<and>
   regex_test date_pattern (params_date req) \<and> \<not> truthy (getPriceFromCache now db k) \<and>
   fetch url = Response True code stx (Some data)"
  let ?out = "btc_price_history_from API_KEY fetch now now' req cur db"
  have r: "btc_price_history API_KEY fetch now now' req db = Inr ?out"
    using h by (simp add: history_returns)
  have "(status (response ?out) = 400 \<longleftrightarrow>
           (\<not> truthy a \<or> (\<forall>c\<in>set cs. \<not> truthy (js_get a c)))) \<and>
        (status (response ?out) = 400 \<longrightarrow>
           state_after ?out = db \<and> DbInsert k \<notin> set (effects ?out)) \<and>
        (status (response ?out) \<noteq> 400 \<longrightarrow>
           ?out = \<lparr>response = res_json 200 result,
                  state_after = savePriceToCache now' k result db,
                  effects = [DbSelect k, Fetch url, DbInsert k]\<rparr> \<and>
           db_select (state_after ?out) k =
             Some \<lparr>row_date = k, row_price_data = body (response ?out), row_timestamp = now'\<rparr>)"
    using h no_data_after_currency [where req = req and cur = cur and db = db
        and API_KEY = API_KEY and fetch = fetch and now = now and now' = now' and data = data
        and code = code and stx = stx]
    unfolding cs_def k_def url_def a_def result_def by blast
  with r show "\<exists>out. btc_price_history API_KEY fetch now now' req db = Inr out \<and>
        (status (response out) = 400 \<longleftrightarrow>
           (\<not> truthy a \<or> (\<forall>c\<in>set cs. \<not> truthy (js_get a c)))) \<and>
        (status (response out) = 400 \<longrightarrow>
           state_after out = db \<and> DbInsert k \<notin> set (effects out)) \<and>
        (status (response out) \<noteq> 400 \<longrightarrow>
           out = \<lparr>response = res_json 200 result,
                  state_after = savePriceToCache now' k result db,
                  effects = [DbSelect k, Fetch url, DbInsert k]\<rparr> \<and>
           db_select (state_after out) k =
             Some \<lparr>row_date = k, row_price_data = body (response out), row_timestamp = now'\<rparr>)"
    by blast
qed

theorem no_data_exactly_when_witness:
  "(\<exists>out. btc_price_history ''k''
      (\<lambda>u. Response True 200 ''OK'' (Some (JObj [(''market_data'', JObj [])])))
      1000 1500 \<lparr>params_date = ''19-05-2025'', query_currency = Some (QString ''usd'')\<rparr> [] =
      Inr out \<and> status (response out) = 400 \<and> state_after out = []) \<and>
   btc_price_history ''k''
      (\<lambda>u. Response True 200 ''OK'' (Some (JObj [(''market_data'',
         JObj [(''current_price'', JObj [(''usd'', JNum 65000), (''eur'', JNum 60000)])])])))
      1000 1500 \<lparr>params_date = ''19-05-2025'', query_currency = Some (QString ''usd'')\<rparr> [] =
     Inr \<lparr>response =
        \<lparr>status = 200,
         body = JObj [(''date'', JStr ''19-05-2025''), (''prices'', JObj [(''usd'', JNum 65000)])]\<rparr>,
      state_after =
        [\<lparr>row_date = ''19-05-2025-usd'',
          row_price_data = JObj [(''date'', JStr ''19-05-2025''),
                                 (''prices'', JObj [(''usd'', JNum 65000)])],
          row_timestamp = 1500\<rparr>],
      effects = [DbSelect ''19-05-2025-usd'',
                 Fetch (history_url ''k'' ''19-05-2025''), DbInsert ''19-05-2025-usd'']\<rparr>"
proof -
  let ?req = "\<lparr>params_date = ''19-05-2025'', query_currency = Some (QString ''usd'')\<rparr>"
  let ?none = "JObj [(''market_data'', JObj [])]"
  let ?prices = "JObj [(''usd'', JNum 65000), (''eur'', JNum 60000)]"
  let ?good = "JObj [(''market_data'', JObj [(''current_price'', ?prices)])]"
  let ?result = "JObj [(''date'', JStr (params_date ?req)),
      (''prices'', JObj (truthy_prices ?prices [''usd'']))]"
  have cur: "currencyParam (query_currency ?req) = Inr (Some ''usd'')"
    by (simp add: example_usd)
  have v: "regex_test date_pattern (params_date ?req)"
    by (simp add: example_date)
  have cs: "currenciesToReturn (Some ''usd'') = [''usd'']"
    by (simp add: currenciesToReturn_usd_eur)
  have a1: "js_opt_member (js_opt_member ?none ''market_data'') ''current_price'' = JUndefined"
    by (simp add: js_opt_member_def)
  have a2: "js_opt_member (js_opt_member ?good ''market_data'') ''current_price'' = ?prices"
    by (simp add: js_opt_member_def)
  from cur v example_miss
    no_data_exactly_when [where req = ?req and cur = "Some ''usd''" and db = "[]"
      and API_KEY = "''k''" and now = 1000 and now' = 1500
      and fetch = "\<lambda>u. Response True 200 ''OK'' (Some ?none)"
      and data = ?none and code = 200 and stx = "''OK''"]
  obtain out1 where
    o1: "btc_price_history ''k'' (\<lambda>u. Response True 200 ''OK'' (Some ?none)) 1000 1500 ?req [] =
      Inr out1"
    and i1: "status (response out1) = 400 \<longleftrightarrow>
      (\<not> truthy JUndefined \<or> (\<forall>c\<in>set [''usd'']. \<not> truthy (js_get JUndefined c)))"
    and s1: "status (response out1) = 400 \<longrightarrow> state_after out1 = []"
    unfolding a1 cs by blast
  have c1: "\<exists>out. btc_price_history ''k'' (\<lambda>u. Response True 200 ''OK'' (Some ?none))
      1000 1500 ?req [] = Inr out \<and> status (response out) = 400 \<and> state_after out = []"
    using o1 i1 s1 by simp
  from cur v example_miss
    no_data_exactly_when [where req = ?req and cur = "Some ''usd''" and db = "[]"
      and API_KEY = "''k''" and now = 1000 and now' = 1500
      and fetch = "\<lambda>u. Response True 200 ''OK'' (Some ?good)"
      and data = ?good and code = 200 and stx = "''OK''"]
  obtain out2 where
    o2: "btc_price_history ''k'' (\<lambda>u. Response True 200 ''OK'' (Some ?good)) 1000 1500 ?req [] =
      Inr out2"
    and i2: "status (response out2) = 400 \<longleftrightarrow>
      (\<not> truthy ?prices \<or> (\<forall>c\<in>set [''usd'']. \<not> truthy (js_get ?prices c)))"
    and s2: "status (response out2) \<noteq> 400 \<longrightarrow>
      out2 = \<lparr>response = res_json 200 ?result,
        state_after = savePriceToCache 1500 (cacheKey (params_date ?req) [''usd'']) ?result [],
        effects = [DbSelect (cacheKey (params_date ?req) [''usd'']),
                   Fetch (history_url ''k'' (params_date ?req)),
                   DbInsert (cacheKey (params_date ?req) [''usd''])]\<rparr>"
    unfolding a2 cs by blast
  have ne: "status (response out2) \<noteq> 400"
    using i2 by simp
  have e: "res_json 200 ?result =
      \<lparr>status = 200,
       body = JObj [(''date'', JStr ''19-05-2025''), (''prices'', JObj [(''usd'', JNum 65000)])]\<rparr>"
    by (simp add: res_json_def truthy_prices_def)
  have k: "cacheKey (params_date ?req) [''usd''] = ''19-05-2025-usd''"
    by (simp add: cacheKey_def)
  have sv: "savePriceToCache 1500 ''19-05-2025-usd'' ?result [] =
      [\<lparr>row_date = ''19-05-2025-usd'',
          row_price_data = JObj [(''date'', JStr ''19-05-2025''),
                                 (''prices'', JObj [(''usd'', JNum 65000)])],
          row_timestamp = 1500\<rparr>]"
    by (simp add: savePriceToCache_def db_insert_or_replace_def truthy_prices_def)
  have u: "history_url ''k'' (params_date ?req) = history_url ''k'' ''19-05-2025''"
    by simp
  from s2 ne have "out2 = \<lparr>response = res_json 200 ?result,
        state_after = savePriceToCache 1500 (cacheKey (params_date ?req) [''usd'']) ?result [],
        effects = [DbSelect (cacheKey (params_date ?req) [''usd'']),
                   Fetch (history_url ''k'' (params_date ?req)),
                   DbInsert (cacheKey (params_date ?req) [''usd''])]\<rparr>"
    by blast
  then have c2: "btc_price_history ''k'' (\<lambda>u. Response True 200 ''OK'' (Some ?good))
      1000 1500 ?req [] =
     Inr \<lparr>response =
        \<lparr>status = 200,
         body = JObj [(''date'', JStr ''19-05-2025''), (''prices'', JObj [(''usd'', JNum 65000)])]\<rparr>,
      state_after =
        [\<lparr>row_date = ''19-05-2025-usd'',
          row_price_data = JObj [(''date'', JStr ''19-05-2025''),
                                 (''prices'', JObj [(''usd'', JNum 65000)])],
          row_timestamp = 1500\<rparr>],
      effects = [DbSelect ''19-05-2025-usd'',
                 Fetch (history_url ''k'' ''19-05-2025''), DbInsert ''19-05-2025-usd'']\<rparr>"
    using o2 unfolding e k sv u by simp
  from c1 c2 show ?thesis by blast
qed

text \<open>
  The claim C7 as stated fails when "present" is read of the key: below, the price-data
  section exists and holds the requested currency usd (with price 0), so the filter of
  the specification keeps it, and the request is answered 400.
\<close>

theorem present_zero_price_is_no_data:
  "js_opt_member (js_opt_member
      (JObj [(''market_data'', JObj [(''current_price'', JObj [(''usd'', JNum 0)])])])
      ''market_data'') ''current_price'' = JObj [(''usd'', JNum 0)] \<and>
   spec_present_prices (JObj [(''usd'', JNum 0)]) [''usd''] = [(''usd'', JNum 0)] \<and>
   btc_price_history ''k''
      (\<lambda>u. Response True 200 ''OK''
         (Some (JObj [(''market_data'', JObj [(''current_price'', JObj [(''usd'', JNum 0)])])])))
      1000 1500 \<lparr>params_date = ''19-05-2025'', query_currency = Some (QString ''usd'')\<rparr> [] =
     Inr \<lparr>response =
        \<lparr>status = 400,
         body = JObj [(''error'', JStr ''No supported currencies found for this date'')]\<rparr>,
      state_after = [],
      effects = [DbSelect ''19-05-2025-usd'', Fetch (history_url ''k'' ''19-05-2025'')]\<rparr>"
  by (simp add: btc_price_history_def example_usd btc_price_history_from_def
        btc_price_history_try_def Let_def example_date
        currenciesToReturn_usd_eur cacheKey_def getPriceFromCache_def db_select_def
        js_opt_member_def js_member_def res_json_def error_body_def spec_present_prices_def)

section \<open>Prices that are left out\<close>

text \<open>
  C10. On a miss with a successful upstream response that has a price-data section, the
  prices answered are those of the effective currencies whose upstream price is truthy, in
  the order of the effective currencies; a currency whose price is 0 or \<^verbatim>\<open>null\<close> is not
  among them. When no effective currency has a truthy price the request is answered 400
  "No supported currencies found for this date" and the table is unchanged, although the
  section exists.
\<close>

theorem falsy_prices_omitted:
  fixes req :: request and cur :: "string option" and db :: cache_table and API_KEY :: string
    and fetch :: "string \<Rightarrow> fetch_result" and now now' :: int and data :: jsval
  defines "cs \<equiv> currenciesToReturn cur"
  defines "k \<equiv> cacheKey (params_date req) cs"
  defines "url \<equiv> history_url API_KEY (params_date req)"
  defines "a \<equiv> js_opt_member (js_opt_member data ''market_data'') ''current_price''"
  shows
  "currencyParam (query_currency req) = Inr cur \<and>
   regex_test date_pattern (params_date req) \<and> \<not> truthy (getPriceFromCache now db k) \<and>
   fetch url = Response True code stx (Some data) \<and> truthy a \<longrightarrow>
     (\<exists>out. btc_price_history API_KEY fetch now now' req db = Inr out \<and>
        ((\<exists>c\<in>set cs. truthy (js_get a c)) \<longrightarrow>
           response out =
             \<lparr>status = 200,
              body = JObj [(''date'', JStr (params_date req)),
                           (''prices'',
                            JObj (map (\<lambda>c. (c, JSON_stringify (js_get a c)))
                                    (filter (\<lambda>c. truthy (js_get a c)) cs)))]\<rparr>) \<and>
        (\<forall>c. js_get a c = JNum 0 \<or> js_get a c = JNull \<longrightarrow>
           c \<notin> set (filter (\<lambda>c. truthy (js_get a c)) cs)) \<and>
        ((\<forall>c\<in>set cs. \<not> truthy (js_get a c)) \<longrightarrow>
           out = \<lparr>response =
                    \<lparr>status = 400,
                     body = JObj [(''error'',
                                   JStr ''No supported currencies found for this date'')]\<rparr>,
                  state_after = db, effects = [DbSelect k, Fetch url]\<rparr>))"
proof (intro impI)
  assume h: "currencyParam (query_currency req) = Inr cur \<and>
   regex_test date_pattern (params_date req) \<and> \<not> truthy (getPriceFromCache now db k) \<and>
   fetch url = Response True code stx (Some data) \<and> truthy a"
  let ?out = "btc_price_history_from API_KEY fetch now now' req cur db"
  have r: "btc_price_history API_KEY fetch now now' req db = Inr ?out"
    using h by (simp add: history_returns)
  have "((\<exists>c\<in>set cs. truthy (js_get a c)) \<longrightarrow>
           response ?out =
             \<lparr>status = 200,
              body = JObj [(''date'', JStr (params_date req)),
                           (''prices'',
                            JObj (map (\<lambda>c. (c, JSON_stringify (js_get a c)))
                                    (filter (\<lambda>c. truthy (js_get a c)) cs)))]\<rparr>) \<and>
        (\<forall>c. js_get a c = JNum 0 \<or> js_get a c = JNull \<longrightarrow>
           c \<notin> set (filter (\<lambda>c. truthy (js_get a c)) cs)) \<and>
        ((\<forall>c\<in>set cs. \<not> truthy (js_get a c)) \<longrightarrow>
           ?out = \<lparr>response =
                    \<lparr>status = 400,
                     body = JObj [(''error'',
                                   JStr ''No supported currencies found for this date'')]\<rparr>,
                  state_after = db, effects = [DbSelect k, Fetch url]\<rparr>)"
    using h omitted_after_currency [where req = req and cur = cur and db = db
        and API_KEY = API_KEY and fetch = fetch and now = now and now' = now' and data = data
        and code = code and stx = stx]
    unfolding cs_def k_def url_def a_def by blast
  with r show "\<exists>out. btc_price_history API_KEY fetch now now' req db = Inr out \<and>
        ((\<exists>c\<in>set cs. truthy (js_get a c)) \<longrightarrow>
           response out =
             \<lparr>status = 200,
              body = JObj [(''date'', JStr (params_date req)),
                           (''prices'',
                            JObj (map (\<lambda>c. (c, JSON_stringify (js_get a c)))
                                    (filter (\<lambda>c. truthy (js_get a c)) cs)))]\<rparr>) \<and>
        (\<forall>c. js_get a c = JNum 0 \<or> js_get a c = JNull \<longrightarrow>
           c \<notin> set (filter (\<lambda>c. truthy (js_get a c)) cs)) \<and>
        ((\<forall>c\<in>set cs. \<not> truthy (js_get a c)) \<longrightarrow>
           out = \<lparr>response =
                    \<lparr>status = 400,
                     body = JObj [(''error'',
                                   JStr ''No supported currencies found for this date'')]\<rparr>,
                  state_after = db, effects = [DbSelect k, Fetch url]\<rparr>)"
    by blast
qed

theorem falsy_prices_omitted_witness:
  "(\<exists>out. btc_price_history ''k''
      (\<lambda>u. Response True 200 ''OK'' (Some (JObj [(''market_data'',
         JObj [(''current_price'',
           JObj [(''usd'', JNum 65000), (''eur'', JNum 0), (''gbp'', JNull)])])])))
      1000 1500 \<lparr>params_date = ''19-05-2025'', query_currency = None\<rparr> [] = Inr out \<and>
      response out =
        \<lparr>status = 200,
         body = JObj [(''date'', JStr ''19-05-2025''),
                      (''prices'', JObj [(''usd'', JNum 65000)])]\<rparr>) \<and>
   btc_price_history ''k''
      (\<lambda>u. Response True 200 ''OK'' (Some (JObj [(''market_data'',
         JObj [(''current_price'', JObj [(''usd'', JNum 0)])])])))
      1000 1500 \<lparr>params_date = ''19-05-2025'', query_currency = Some (QString ''usd'')\<rparr> [] =
     Inr \<lparr>response =
        \<lparr>status = 400,
         body = JObj [(''error'', JStr ''No supported currencies found for this date'')]\<rparr>,
      state_after = [],
      effects = [DbSelect ''19-05-2025-usd'', Fetch (history_url ''k'' ''19-05-2025'')]\<rparr>"
proof -
  let ?all = "\<lparr>params_date = ''19-05-2025'', query_currency = None\<rparr>"
  let ?usd = "\<lparr>params_date = ''19-05-2025'', query_currency = Some (QString ''usd'')\<rparr>"
  let ?p1 = "JObj [(''usd'', JNum 65000), (''eur'', JNum 0), (''gbp'', JNull)]"
  let ?d1 = "JObj [(''market_data'', JObj [(''current_price'', ?p1)])]"
  let ?p2 = "JObj [(''usd'', JNum 0)]"
  let ?d2 = "JObj [(''market_data'', JObj [(''current_price'', ?p2)])]"
  have cur1: "currencyParam (query_currency ?all) = Inr None"
    by (simp add: currencyParam_None)
  have cur2: "currencyParam (query_currency ?usd) = Inr (Some ''usd'')"
    by (simp add: example_usd)
  have v1: "regex_test date_pattern (params_date ?all)"
    and v2: "regex_test date_pattern (params_date ?usd)"
    by (simp_all add: example_date)
  have cs1: "currenciesToReturn None = [''usd'', ''aud'', ''cad'', ''eur'', ''gbp'']"
    by (simp add: currenciesToReturn_def supportedCurrencies_def)
  have cs2: "currenciesToReturn (Some ''usd'') = [''usd'']"
    by (simp add: currenciesToReturn_usd_eur)
  have a1: "js_opt_member (js_opt_member ?d1 ''market_data'') ''current_price'' = ?p1"
    by (simp add: js_opt_member_def)
  have a2: "js_opt_member (js_opt_member ?d2 ''market_data'') ''current_price'' = ?p2"
    by (simp add: js_opt_member_def)
  have t1: "truthy ?p1 \<and> (\<exists>c\<in>set [''usd'', ''aud'', ''cad'', ''eur'', ''gbp'']. truthy (js_get ?p1 c))"
    by simp
  have t2: "truthy ?p2 \<and> (\<forall>c\<in>set [''usd'']. \<not> truthy (js_get ?p2 c))"
    by simp
  have f1: "map (\<lambda>c. (c, JSON_stringify (js_get ?p1 c)))
        (filter (\<lambda>c. truthy (js_get ?p1 c)) [''usd'', ''aud'', ''cad'', ''eur'', ''gbp'']) =
      [(''usd'', JNum 65000)]"
    by simp
  have k2: "cacheKey ''19-05-2025'' [''usd''] = ''19-05-2025-usd''"
    by (simp add: cacheKey_def)
  have d: "params_date ?all = ''19-05-2025''" "params_date ?usd = ''19-05-2025''"
    by simp_all
  have c1: "\<exists>out. btc_price_history ''k'' (\<lambda>u. Response True 200 ''OK'' (Some ?d1))
      1000 1500 ?all [] = Inr out \<and>
      response out =
        \<lparr>status = 200,
         body = JObj [(''date'', JStr ''19-05-2025''),
                      (''prices'', JObj [(''usd'', JNum 65000)])]\<rparr>"
    using cur1 v1 example_miss t1
      falsy_prices_omitted [where req = ?all and cur = None and db = "[]" and API_KEY = "''k''"
        and now = 1000 and now' = 1500 and fetch = "\<lambda>u. Response True 200 ''OK'' (Some ?d1)"
        and data = ?d1 and code = 200 and stx = "''OK''"]
    unfolding a1 cs1 f1 d by blast
  have "\<exists>out. btc_price_history ''k'' (\<lambda>u. Response True 200 ''OK'' (Some ?d2))
      1000 1500 ?usd [] = Inr out \<and>
      out = \<lparr>response =
        \<lparr>status = 400,
         body = JObj [(''error'', JStr ''No supported currencies found for this date'')]\<rparr>,
      state_after = [],
      effects = [DbSelect ''19-05-2025-usd'', Fetch (history_url ''k'' ''19-05-2025'')]\<rparr>"
    using cur2 v2 example_miss t2
      falsy_prices_omitted [where req = ?usd and cur = "Some ''usd''" and db = "[]"
        and API_KEY = "''k''"
        and now = 1000 and now' = 1500 and fetch = "\<lambda>u. Response True 200 ''OK'' (Some ?d2)"
        and data = ?d2 and code = 200 and stx = "''OK''"]
    unfolding a2 cs2 k2 d by blast
  then have c2: "btc_price_history ''k'' (\<lambda>u. Response True 200 ''OK'' (Some ?d2))
      1000 1500 ?usd [] =
     Inr \<lparr>response =
        \<lparr>status = 400,
         body = JObj [(''error'', JStr ''No supported currencies found for this date'')]\<rparr>,
      state_after = [],
      effects = [DbSelect ''19-05-2025-usd'', Fetch (history_url ''k'' ''19-05-2025'')]\<rparr>"
    by blast
  from c1 c2 show ?thesis by blast
qed

end
